theory Spec2Isabelle
  imports Complex_Main
begin

section \<open>Dense matrices as Eigen stores them\<close>

text \<open>
  An \<open>Eigen::MatrixXd\<close> is a row count, a column count and one contiguous buffer of
  doubles in column-major order: entry \<open>(i, j)\<close> lives at offset \<open>i + j * rows\<close>.
  The model keeps exactly that, with the doubles idealised as reals, because one read
  in the sampler (a \<open>Map\<close> over a raw pointer) depends on the layout.
  An \<open>Eigen::VectorXd\<close> is a plain list.  Eigen does not check sizes or bounds in a
  release build; a read past the end is left as HOL's unspecified \<open>xs ! k\<close>, and the
  theorems that depend on such a read carry the size facts as hypotheses.
\<close>

record mat =
  nrows :: nat
  ncols :: nat
  elems :: "real list"

type_synonym vec = "real list"

definition mat_of :: "nat \<Rightarrow> nat \<Rightarrow> (nat \<Rightarrow> nat \<Rightarrow> real) \<Rightarrow> mat" where
  "mat_of r c f =
     \<lparr>nrows = r, ncols = c, elems = map (\<lambda>k. f (k mod r) (k div r)) [0..<r * c]\<rparr>"

definition coeff :: "mat \<Rightarrow> nat \<Rightarrow> nat \<Rightarrow> real" where
  "coeff M i j = elems M ! (i + j * nrows M)"

definition wf_mat :: "mat \<Rightarrow> bool" where
  "wf_mat M = (length (elems M) = nrows M * ncols M)"

definition zero_mat :: "nat \<Rightarrow> nat \<Rightarrow> mat" where
  "zero_mat r c = mat_of r c (\<lambda>i j. 0)"

definition identity_mat :: "nat \<Rightarrow> mat" where
  "identity_mat n = mat_of n n (\<lambda>i j. if i = j then 1 else 0)"

definition transpose_mat :: "mat \<Rightarrow> mat" where
  "transpose_mat M = mat_of (ncols M) (nrows M) (\<lambda>i j. coeff M j i)"

definition mat_mul :: "mat \<Rightarrow> mat \<Rightarrow> mat" where
  "mat_mul A B =
     mat_of (nrows A) (ncols B) (\<lambda>i j. \<Sum>k \<leftarrow> [0..<ncols A]. coeff A i k * coeff B k j)"

definition mat_add :: "mat \<Rightarrow> mat \<Rightarrow> mat" where
  "mat_add A B = mat_of (nrows A) (ncols A) (\<lambda>i j. coeff A i j + coeff B i j)"

definition mat_sub :: "mat \<Rightarrow> mat \<Rightarrow> mat" where
  "mat_sub A B = mat_of (nrows A) (ncols A) (\<lambda>i j. coeff A i j - coeff B i j)"

definition add_rowwise :: "mat \<Rightarrow> vec \<Rightarrow> mat" where
  \<comment> \<open>\<open>res.rowwise() += mu.transpose()\<close>\<close>
  "add_rowwise A mu = mat_of (nrows A) (ncols A) (\<lambda>i j. coeff A i j + mu ! j)"

definition get_row :: "mat \<Rightarrow> nat \<Rightarrow> vec" where
  \<comment> \<open>\<open>M.row(i)\<close> read as a vector\<close>
  "get_row M i = map (\<lambda>j. coeff M i j) [0..<ncols M]"

definition get_col :: "mat \<Rightarrow> nat \<Rightarrow> vec" where
  "get_col M j = map (\<lambda>i. coeff M i j) [0..<nrows M]"

definition get_block :: "mat \<Rightarrow> nat \<Rightarrow> nat \<Rightarrow> nat \<Rightarrow> nat \<Rightarrow> mat" where
  \<comment> \<open>\<open>M.block(i0, j0, r, c)\<close> read as a matrix\<close>
  "get_block M i0 j0 r c = mat_of r c (\<lambda>i j. coeff M (i0 + i) (j0 + j))"

definition bottomRows :: "mat \<Rightarrow> nat \<Rightarrow> mat" where
  \<comment> \<open>\<open>M.bottomRows(n)\<close>: the last \<open>n\<close> rows\<close>
  "bottomRows M n = mat_of n (ncols M) (\<lambda>i j. coeff M (nrows M - n + i) j)"

definition topRows :: "mat \<Rightarrow> nat \<Rightarrow> mat" where
  "topRows M n = mat_of n (ncols M) (\<lambda>i j. coeff M i j)"

definition map_raw :: "mat \<Rightarrow> nat \<Rightarrow> nat \<Rightarrow> nat \<Rightarrow> mat" where
  \<comment> \<open>\<open>Eigen::Map<Eigen::MatrixXd>(M.data() + off, r, c)\<close>: \<open>r * c\<close> contiguous doubles of
      the buffer, starting at offset \<open>off\<close>, read as a column-major \<open>r \<times> c\<close> matrix\<close>
  "map_raw M off r c = \<lparr>nrows = r, ncols = c, elems = take (r * c) (drop off (elems M))\<rparr>"

definition diagonal :: "mat \<Rightarrow> vec" where
  "diagonal M = map (\<lambda>i. coeff M i i) [0..<min (nrows M) (ncols M)]"

section \<open>Writes into a matrix or a vector\<close>

text \<open>
  Every assignment to a row, a block, a diagonal or a segment of a matrix changes the
  buffer at the offsets of that region and nowhere else.
\<close>

definition update_where :: "mat \<Rightarrow> (nat \<Rightarrow> nat \<Rightarrow> bool) \<Rightarrow> (nat \<Rightarrow> nat \<Rightarrow> real) \<Rightarrow> mat" where
  "update_where M P f =
     M\<lparr>elems := map (\<lambda>k. if P (k mod nrows M) (k div nrows M)
                          then f (k mod nrows M) (k div nrows M) else elems M ! k)
                    [0..<length (elems M)]\<rparr>"

definition set_row :: "mat \<Rightarrow> nat \<Rightarrow> vec \<Rightarrow> mat" where
  \<comment> \<open>\<open>M.row(i) = v\<close>\<close>
  "set_row M i v = update_where M (\<lambda>r c. r = i) (\<lambda>r c. v ! c)"

definition set_block :: "mat \<Rightarrow> nat \<Rightarrow> nat \<Rightarrow> mat \<Rightarrow> mat" where
  \<comment> \<open>\<open>M.block(i0, j0, B.rows(), B.cols()) = B\<close>\<close>
  "set_block M i0 j0 B =
     update_where M (\<lambda>r c. i0 \<le> r \<and> r < i0 + nrows B \<and> j0 \<le> c \<and> c < j0 + ncols B)
       (\<lambda>r c. coeff B (r - i0) (c - j0))"

definition set_diagonal :: "mat \<Rightarrow> vec \<Rightarrow> mat" where
  \<comment> \<open>\<open>M.diagonal() = v\<close>\<close>
  "set_diagonal M v = update_where M (\<lambda>r c. r = c) (\<lambda>r c. v ! r)"

definition set_block_diagonal :: "mat \<Rightarrow> nat \<Rightarrow> nat \<Rightarrow> nat \<Rightarrow> vec \<Rightarrow> mat" where
  \<comment> \<open>\<open>M.block(i0, j0, n, n).diagonal() = v\<close>\<close>
  "set_block_diagonal M i0 j0 n v =
     update_where M (\<lambda>r c. i0 \<le> r \<and> r < i0 + n \<and> c = j0 + (r - i0)) (\<lambda>r c. v ! (r - i0))"

definition get_col_segment :: "mat \<Rightarrow> nat \<Rightarrow> nat \<Rightarrow> nat \<Rightarrow> vec" where
  \<comment> \<open>\<open>M.col(j).segment(s, n)\<close> read as a vector\<close>
  "get_col_segment M j s n = map (\<lambda>k. coeff M (s + k) j) [0..<n]"

definition set_col_segment :: "mat \<Rightarrow> nat \<Rightarrow> nat \<Rightarrow> nat \<Rightarrow> vec \<Rightarrow> mat" where
  \<comment> \<open>\<open>M.col(j).segment(s, n) = v\<close>\<close>
  "set_col_segment M j s n v =
     update_where M (\<lambda>r c. c = j \<and> s \<le> r \<and> r < s + n) (\<lambda>r c. v ! (r - s))"

definition set_row_segment :: "mat \<Rightarrow> nat \<Rightarrow> nat \<Rightarrow> nat \<Rightarrow> vec \<Rightarrow> mat" where
  \<comment> \<open>\<open>M.row(i).segment(s, n) = v\<close>\<close>
  "set_row_segment M i s n v =
     update_where M (\<lambda>r c. r = i \<and> s \<le> c \<and> c < s + n) (\<lambda>r c. v ! (c - s))"

definition segment :: "vec \<Rightarrow> nat \<Rightarrow> nat \<Rightarrow> vec" where
  \<comment> \<open>\<open>v.segment(s, n)\<close> read\<close>
  "segment v s n = map (\<lambda>k. v ! (s + k)) [0..<n]"

definition set_segment :: "vec \<Rightarrow> nat \<Rightarrow> nat \<Rightarrow> vec \<Rightarrow> vec" where
  \<comment> \<open>\<open>v.segment(s, n) = w\<close>\<close>
  "set_segment v s n w =
     map (\<lambda>k. if s \<le> k \<and> k < s + n then w ! (k - s) else v ! k) [0..<length v]"

definition replicate_row :: "vec \<Rightarrow> nat \<Rightarrow> mat" where
  \<comment> \<open>a row vector \<open>v\<close>, \<open>v.replicate(n, 1)\<close>: \<open>n\<close> copies of the row, stacked\<close>
  "replicate_row v n = mat_of n (length v) (\<lambda>i j. v ! j)"

definition replicate_col :: "vec \<Rightarrow> nat \<Rightarrow> mat" where
  \<comment> \<open>a column vector \<open>v\<close>, \<open>v.replicate(1, n)\<close>: \<open>n\<close> copies of the column, side by side\<close>
  "replicate_col v n = mat_of (length v) n (\<lambda>i j. v ! i)"

definition select_eq :: "mat \<Rightarrow> int \<Rightarrow> real \<Rightarrow> mat \<Rightarrow> mat" where
  \<comment> \<open>\<open>(G.array() == id).select(c.replicate(\<dots>), old)\<close>: the constant \<open>c\<close> where \<open>G\<close> equals
      \<open>id\<close>, the old entry elsewhere; the result has the shape of \<open>G\<close>\<close>
  "select_eq G ident c old =
     mat_of (nrows G) (ncols G) (\<lambda>i j. if coeff G i j = real_of_int ident then c else coeff old i j)"

definition log_mean_square :: "mat \<Rightarrow> vec" where
  \<comment> \<open>\<open>R.transpose().array().square().rowwise().mean().log()\<close>: for each column of \<open>R\<close>
      the log of the mean of its squared entries\<close>
  "log_mean_square R =
     map (\<lambda>j. ln ((\<Sum>t \<leftarrow> [0..<nrows R]. (coeff R t j)\<^sup>2) / real (nrows R))) [0..<ncols R]"

definition log_adjust :: "mat \<Rightarrow> mat" where
  \<comment> \<open>\<open>(M.array().square() + .0001).array().log()\<close>\<close>
  "log_adjust M = mat_of (nrows M) (ncols M) (\<lambda>i j. ln ((coeff M i j)\<^sup>2 + 0.0001))"

section \<open>The random-variate primitives\<close>

text \<open>
  \<open>norm_rand\<close> and \<open>chisq_rand\<close> are R's generators: they read and advance R's global
  random state.  The state is an abstract value \<open>'g\<close> passed in and handed back, so
  that "no draw was made" is the statement that the state is unchanged.
\<close>

record 'g rng =
  norm_rand :: "'g \<Rightarrow> real \<times> 'g"
  chisq_rand :: "real \<Rightarrow> 'g \<Rightarrow> real \<times> 'g"

text \<open>
  Eigen's factorisations are library code: the matrix square root, the lower factor of
  \<open>LLT\<close> and the inverse are parameters.  \<open>matrixU()\<close> is the transpose of \<open>matrixL()\<close>.
\<close>

record eigen_ops =
  mat_sqrt :: "mat \<Rightarrow> mat"
  llt_L :: "mat \<Rightarrow> mat"
  mat_inverse :: "mat \<Rightarrow> mat"

definition llt_U :: "eigen_ops \<Rightarrow> mat \<Rightarrow> mat" where
  "llt_U E A = transpose_mat (llt_L E A)"

definition keeps_shape :: "(mat \<Rightarrow> mat) \<Rightarrow> bool" where
  "keeps_shape f = (\<forall>A. nrows (f A) = nrows A \<and> ncols (f A) = ncols A)"

definition eigen_shapes :: "eigen_ops \<Rightarrow> bool" where
  \<comment> \<open>what Eigen documents of the three operations: the result has the argument's shape\<close>
  "eigen_shapes E = (keeps_shape (mat_sqrt E) \<and> keeps_shape (llt_L E) \<and> keeps_shape (mat_inverse E))"

fun draw_norms :: "'g rng \<Rightarrow> nat \<Rightarrow> 'g \<Rightarrow> real list \<times> 'g" where
  "draw_norms R 0 g = ([], g)"
| "draw_norms R (Suc n) g =
     (let (z, g1) = norm_rand R g; (zs, g2) = draw_norms R n g1 in (z # zs, g2))"

definition fill_norm :: "'g rng \<Rightarrow> nat \<Rightarrow> nat \<Rightarrow> 'g \<Rightarrow> mat \<times> 'g" where
  \<comment> \<open>the double loop \<open>for i < r: for j < c: m(i, j) = norm_rand()\<close>: \<open>r * c\<close> draws, row by row\<close>
  "fill_norm R r c g =
     (let (zs, g1) = draw_norms R (r * c) g in (mat_of r c (\<lambda>i j. zs ! (i * c + j)), g1))"

section \<open>The companion random-matrix services (generate-distn.cpp)\<close>

text \<open>
  \<open>Rcpp::stop\<close> raises one exception type with a message; each message of the file is a
  constructor.  A service returns the error or the matrix, together with the random
  state it leaves behind.
\<close>

datatype stop_error =
    Invalid_sig_dimension
  | Invalid_mu_size
  | Invalid_mat_scale_u_dimension
  | Invalid_mat_scale_v_dimension
  | Wrong_shape
  | Invalid_mat_scale_dimension

definition dimension_mismatch :: "stop_error \<Rightarrow> bool" where
  "dimension_mismatch e = (e \<noteq> Wrong_shape)"

definition invalid_hyperparameter :: "stop_error \<Rightarrow> bool" where
  "invalid_hyperparameter e = (e = Wrong_shape)"

definition sim_mgaussian ::
  "'g rng \<Rightarrow> eigen_ops \<Rightarrow> nat \<Rightarrow> vec \<Rightarrow> mat \<Rightarrow> 'g \<Rightarrow> (stop_error + mat) \<times> 'g" where
  "sim_mgaussian R E num_sim mu sig g =
     (let dim = ncols sig in
      if nrows sig \<noteq> dim then (Inl Invalid_sig_dimension, g)
      else if dim \<noteq> length mu then (Inl Invalid_mu_size, g)
      else
        let (standard_normal, g1) = fill_norm R num_sim dim g;
            res = mat_mul standard_normal (mat_sqrt E sig)
        in (Inr (add_rowwise res mu), g1))"

definition sim_mgaussian_chol ::
  "'g rng \<Rightarrow> eigen_ops \<Rightarrow> nat \<Rightarrow> vec \<Rightarrow> mat \<Rightarrow> 'g \<Rightarrow> (stop_error + mat) \<times> 'g" where
  "sim_mgaussian_chol R E num_sim mu sig g =
     (let dim = ncols sig in
      if nrows sig \<noteq> dim then (Inl Invalid_sig_dimension, g)
      else if dim \<noteq> length mu then (Inl Invalid_mu_size, g)
      else
        let (standard_normal, g1) = fill_norm R num_sim dim g;
            sig_sqrt = llt_U E sig;
            res = mat_mul standard_normal sig_sqrt
        in (Inr (add_rowwise res mu), g1))"

definition sim_matgaussian ::
  "'g rng \<Rightarrow> eigen_ops \<Rightarrow> mat \<Rightarrow> mat \<Rightarrow> mat \<Rightarrow> 'g \<Rightarrow> (stop_error + mat) \<times> 'g" where
  "sim_matgaussian R E mat_mean mat_scale_u mat_scale_v g =
     (let num_rows = nrows mat_mean; num_cols = ncols mat_mean in
      if nrows mat_scale_u \<noteq> ncols mat_scale_u then (Inl Invalid_mat_scale_u_dimension, g)
      else if num_rows \<noteq> nrows mat_scale_u then (Inl Invalid_mat_scale_u_dimension, g)
      else if nrows mat_scale_v \<noteq> ncols mat_scale_v then (Inl Invalid_mat_scale_v_dimension, g)
      else if num_cols \<noteq> nrows mat_scale_v then (Inl Invalid_mat_scale_v_dimension, g)
      else
        let chol_scale_u = llt_L E mat_scale_u;
            chol_scale_v = llt_L E mat_scale_v;
            (mat_norm, g1) = fill_norm R num_rows num_cols g
        in (Inr (mat_add mat_mean
                   (mat_mul (mat_mul chol_scale_u mat_norm) (transpose_mat chol_scale_v))), g1))"

fun bartlett_rows :: "'g rng \<Rightarrow> real \<Rightarrow> nat \<Rightarrow> nat \<Rightarrow> 'g \<Rightarrow> real list list \<times> 'g" where
  \<comment> \<open>rows \<open>i, i + 1, \<dots>\<close> of the upper-triangular Bartlett factor, \<open>k\<close> rows left: zeros
      below the diagonal, \<open>sqrt(chisq_rand(shape - i))\<close> on it, \<open>norm_rand()\<close> right of it\<close>
  "bartlett_rows R shape i 0 g = ([], g)"
| "bartlett_rows R shape i (Suc k) g =
     (let (q, g1) = chisq_rand R (shape - real i) g;
          (zs, g2) = draw_norms R k g1;
          (rest, g3) = bartlett_rows R shape (Suc i) k g2
      in ((replicate i 0 @ sqrt q # zs) # rest, g3))"

definition sim_iw_tri ::
  "'g rng \<Rightarrow> eigen_ops \<Rightarrow> mat \<Rightarrow> real \<Rightarrow> 'g \<Rightarrow> (stop_error + mat) \<times> 'g" where
  "sim_iw_tri R E mat_scale shape g =
     (let dim = ncols mat_scale in
      if shape \<le> real_of_int (int dim - 1) then (Inl Wrong_shape, g)
      else if nrows mat_scale \<noteq> ncols mat_scale then (Inl Invalid_mat_scale_dimension, g)
      else if dim \<noteq> nrows mat_scale then (Inl Invalid_mat_scale_dimension, g)
      else
        let (rows, g1) = bartlett_rows R shape 0 dim g;
            mat_bartlett = mat_of dim dim (\<lambda>i j. rows ! i ! j);
            chol_scale = llt_L E mat_scale
        in (Inr (mat_mul chol_scale (transpose_mat (mat_inverse E mat_bartlett))), g1))"

definition sim_iw ::
  "'g rng \<Rightarrow> eigen_ops \<Rightarrow> mat \<Rightarrow> real \<Rightarrow> 'g \<Rightarrow> (stop_error + mat) \<times> 'g" where
  "sim_iw R E mat_scale shape g =
     (case sim_iw_tri R E mat_scale shape g of
        (Inl e, g1) \<Rightarrow> (Inl e, g1)
      | (Inr chol_res, g1) \<Rightarrow> (Inr (mat_mul chol_res (transpose_mat chol_res)), g1))"

text \<open>
  \<open>sim_mniw\<close> fills two result matrices block by block, \<open>num_sim\<close> times; both are
  overwritten in full before they are returned, so the loop carries them as the updated
  matrices.  An exception inside the loop discards them.
\<close>

fun mniw_loop ::
  "'g rng \<Rightarrow> eigen_ops \<Rightarrow> mat \<Rightarrow> mat \<Rightarrow> mat \<Rightarrow> real \<Rightarrow> nat \<Rightarrow> nat \<Rightarrow> mat \<Rightarrow> mat \<Rightarrow> 'g
     \<Rightarrow> (stop_error + mat \<times> mat) \<times> 'g" where
  "mniw_loop R E mat_mean mat_scale_u mat_scale shape i 0 res_mn res_iw g =
     (Inr (res_mn, res_iw), g)"
| "mniw_loop R E mat_mean mat_scale_u mat_scale shape i (Suc k) res_mn res_iw g =
     (case sim_iw_tri R E mat_scale shape g of
        (Inl e, g1) \<Rightarrow> (Inl e, g1)
      | (Inr chol_res, g1) \<Rightarrow>
          let mat_scale_v = mat_mul chol_res (transpose_mat chol_res);
              res_iw1 = set_block res_iw 0 (i * ncols mat_scale) mat_scale_v
          in (case sim_matgaussian R E mat_mean mat_scale_u mat_scale_v g1 of
                (Inl e, g2) \<Rightarrow> (Inl e, g2)
              | (Inr y, g2) \<Rightarrow>
                  mniw_loop R E mat_mean mat_scale_u mat_scale shape (Suc i) k
                    (set_block res_mn 0 (i * ncols mat_mean) y) res_iw1 g2))"

definition sim_mniw ::
  "'g rng \<Rightarrow> eigen_ops \<Rightarrow> (nat \<Rightarrow> nat \<Rightarrow> mat) \<Rightarrow> nat \<Rightarrow> mat \<Rightarrow> mat \<Rightarrow> mat \<Rightarrow> real \<Rightarrow> 'g
     \<Rightarrow> (stop_error + (string \<times> mat) list) \<times> 'g" where
  \<comment> \<open>\<open>fresh r c\<close> is a freshly allocated, uninitialised \<open>r \<times> c\<close> matrix\<close>
  "sim_mniw R E fresh num_sim mat_mean mat_scale_u mat_scale shape g =
     (let ncol_mn = ncols mat_mean; nrow_mn = nrows mat_mean; dim_iw = ncols mat_scale in
      if dim_iw \<noteq> nrows mat_scale then (Inl Invalid_mat_scale_dimension, g)
      else
        (case mniw_loop R E mat_mean mat_scale_u mat_scale shape 0 num_sim
                (fresh nrow_mn (num_sim * ncol_mn)) (fresh dim_iw (num_sim * dim_iw)) g of
           (Inl e, g1) \<Rightarrow> (Inl e, g1)
         | (Inr (res_mn, res_iw), g1) \<Rightarrow> (Inr [(''mn'', res_mn), (''iw'', res_iw)], g1)))"


section \<open>The Gibbs sampler (estimate-sv.cpp)\<close>

subsection \<open>What the file calls but does not define\<close>

text \<open>
  The conditional draws and the small builders are declared in \<open>bvhardraw.h\<close>; their
  bodies are not part of these sources, so they are parameters.  A function that draws
  takes the random state and returns the new one: R's generator is global, and the
  order of the calls is the order in which the state is threaded.
\<close>

record 'g bvhar =
  vectorize_eigen :: "mat \<Rightarrow> vec"
  unvectorize :: "vec \<Rightarrow> nat \<Rightarrow> nat \<Rightarrow> mat"
  kronecker_eigen :: "mat \<Rightarrow> mat \<Rightarrow> mat"
  build_inv_lower :: "nat \<Rightarrow> vec \<Rightarrow> mat"
  build_ssvs_sd :: "vec \<Rightarrow> vec \<Rightarrow> vec \<Rightarrow> vec"
  build_shrink_mat :: "vec \<Rightarrow> vec \<Rightarrow> mat"
  varsv_regression :: "mat \<Rightarrow> vec \<Rightarrow> vec \<Rightarrow> mat \<Rightarrow> mat \<Rightarrow> 'g \<Rightarrow> vec \<times> 'g"
  ssvs_dummy :: "vec \<Rightarrow> vec \<Rightarrow> vec \<Rightarrow> vec \<Rightarrow> 'g \<Rightarrow> vec \<times> 'g"
  ssvs_weight :: "vec \<Rightarrow> real \<Rightarrow> real \<Rightarrow> 'g \<Rightarrow> vec \<times> 'g"
  ssvs_mn_weight :: "vec \<Rightarrow> int list \<Rightarrow> vec \<Rightarrow> real \<Rightarrow> real \<Rightarrow> 'g \<Rightarrow> vec \<times> 'g"
  horseshoe_latent :: "vec \<Rightarrow> 'g \<Rightarrow> vec \<times> 'g"
  horseshoe_local_sparsity :: "vec \<Rightarrow> vec \<Rightarrow> vec \<Rightarrow> real \<Rightarrow> 'g \<Rightarrow> vec \<times> 'g"
  horseshoe_global_sparsity :: "real \<Rightarrow> vec \<Rightarrow> vec \<Rightarrow> real \<Rightarrow> 'g \<Rightarrow> real \<times> 'g"
  horseshoe_mn_global_sparsity ::
    "vec \<Rightarrow> int list \<Rightarrow> vec \<Rightarrow> vec \<Rightarrow> vec \<Rightarrow> real \<Rightarrow> 'g \<Rightarrow> vec \<times> 'g"
  varsv_ht :: "vec \<Rightarrow> real \<Rightarrow> real \<Rightarrow> vec \<Rightarrow> int \<Rightarrow> 'g \<Rightarrow> vec \<times> 'g"
  varsv_sigh :: "vec \<Rightarrow> vec \<Rightarrow> vec \<Rightarrow> mat \<Rightarrow> 'g \<Rightarrow> vec \<times> 'g"
  varsv_h0 :: "vec \<Rightarrow> mat \<Rightarrow> vec \<Rightarrow> vec \<Rightarrow> vec \<Rightarrow> 'g \<Rightarrow> vec \<times> 'g"
  llt_solve :: "mat \<Rightarrow> mat \<Rightarrow> mat"
  inverse_mat :: "mat \<Rightarrow> mat"
  junk :: "string \<Rightarrow> nat \<Rightarrow> real"
  check_abort :: "nat \<Rightarrow> bool"

text \<open>
  Beside the helpers the record holds what else the function takes from outside:
  \<open>llt_solve A B\<close> is Eigen's \<open>A.llt().solve(B)\<close> and \<open>inverse_mat\<close> its
  \<open>.inverse()\<close>; \<open>junk v k\<close> is the double found at offset \<open>k\<close> of the buffer that
  the declaration of the variable \<open>v\<close> allocates and does not initialise;
  \<open>check_abort i\<close> is the answer of \<open>Progress::check_abort()\<close> at the top of
  iteration \<open>i\<close>.
\<close>

definition alloc :: "'g bvhar \<Rightarrow> string \<Rightarrow> nat \<Rightarrow> nat \<Rightarrow> mat" where
  \<comment> \<open>\<open>Eigen::MatrixXd v(r, c);\<close> with no initialiser\<close>
  "alloc B v r c = \<lparr>nrows = r, ncols = c, elems = map (junk B v) [0..<r * c]\<rparr>"

subsection \<open>The arguments and the local variables\<close>

text \<open>
  The arguments of \<open>estimate_var_sv\<close>, by name (\<open>x\<close> and \<open>y\<close> are \<open>X0\<close> and \<open>Y0\<close>, as
  the function's documentation calls them).  The counts are naturals: a negative
  \<open>num_iter\<close> would ask Eigen for a matrix with a negative row count.
\<close>

record args =
  num_iter :: nat
  num_burn :: nat
  X0 :: mat
  Y0 :: mat
  prior_coef_mean :: mat
  prior_coef_prec :: mat
  prec_diag :: mat
  prior_type :: int
  init_local :: vec
  init_global :: vec
  init_contem_local :: vec
  init_contem_global :: vec
  grp_id :: "int list"
  grp_mat :: mat
  coef_spike :: vec
  coef_slab :: vec
  coef_slab_weight :: vec
  chol_spike :: vec
  chol_slab :: vec
  chol_slab_weight :: vec
  coef_s1 :: real
  coef_s2 :: real
  chol_s1 :: real
  chol_s2 :: real
  mean_non :: vec
  sd_non :: real
  include_mean :: bool
  display_progress :: bool
  nthreads :: int

text \<open>
  The state of the loop is the arguments (four of them, \<open>init_local\<close>,
  \<open>init_contem_local\<close>, \<open>init_contem_global\<close> and \<open>chol_slab_weight\<close>, are overwritten
  in every iteration), the twelve history matrices, the working variables that carry a
  value from one statement group or one iteration to the next, and the random state.
  The remaining locals of the function (\<open>coef_mixture_mat\<close>, \<open>slab_weight\<close>,
  \<open>contem_dummy\<close>, the \<open>latent_\<close> vectors, \<open>contem_global\<close>, \<open>global_shrinkage\<close>) are
  assigned in full before each use and are bound by \<open>let\<close>.
\<close>

record 'g state = args +
  coef_record :: mat
  contem_coef_record :: mat
  lvol_sig_record :: mat
  lvol_init_record :: mat
  lvol_record :: mat
  coef_dummy_record :: mat
  coef_weight_record :: mat
  contem_dummy_record :: mat
  contem_weight_record :: mat
  local_record :: mat
  global_record :: mat
  shrink_record :: mat
  response_vec :: vec
  design_mat :: mat
  prior_alpha_mean :: vec
  prior_alpha_prec :: mat
  prior_chol_mean :: vec
  prior_chol_prec :: mat
  grp_vec :: vec
  coef_mat :: mat
  chol_lower :: mat
  latent_innov :: mat
  ortho_latent :: mat
  reginnov_stack :: mat
  innov_prec :: mat
  prec_stack :: mat
  prior_sd :: vec
  slab_weight_mat :: mat
  global_shrinkage_mat :: mat
  rstate :: 'g

definition dim :: "'a args_scheme \<Rightarrow> nat" where
  "dim a = ncols (Y0 a)"

definition dim_design :: "'a args_scheme \<Rightarrow> nat" where
  "dim_design a = ncols (X0 a)"

definition num_design :: "'a args_scheme \<Rightarrow> nat" where
  "num_design a = nrows (Y0 a)"

definition num_lowerchol :: "'a args_scheme \<Rightarrow> nat" where
  "num_lowerchol a = dim a * (dim a - 1) div 2"

definition num_coef :: "'a args_scheme \<Rightarrow> nat" where
  "num_coef a = dim a * dim_design a"

definition num_alpha :: "'a args_scheme \<Rightarrow> nat" where
  \<comment> \<open>\<open>num_coef - dim\<close>, and \<open>dim\<close> added back when there is no constant term\<close>
  "num_alpha a = (if include_mean a then num_coef a - dim a else num_coef a)"

definition num_grp :: "'a args_scheme \<Rightarrow> nat" where
  "num_grp a = length (grp_id a)"

definition prior_sig_shp :: "'a args_scheme \<Rightarrow> vec" where
  "prior_sig_shp a = replicate (dim a) 3"

definition prior_sig_scl :: "'a args_scheme \<Rightarrow> vec" where
  "prior_sig_scl a = replicate (dim a) 0.01"

definition prior_init_mean :: "'a args_scheme \<Rightarrow> vec" where
  "prior_init_mean a = replicate (dim a) 1"

definition prior_init_prec :: "'a args_scheme \<Rightarrow> mat" where
  "prior_init_prec a = mat_of (dim a) (dim a) (\<lambda>i j. if i = j then 1 / 10 else 0)"

subsection \<open>The prior configurator (lines 82 to 104)\<close>

definition ssvs_mean_step :: "args \<Rightarrow> nat \<Rightarrow> vec \<Rightarrow> vec" where
  \<comment> \<open>the body of the loop over \<open>j\<close> under \<open>case 2\<close>, with a constant term\<close>
  "ssvs_mean_step a j m =
     (set_segment m (j * dim_design a) (num_alpha a div dim a) (replicate (num_alpha a div dim a) 0))
       [j * dim_design a + num_alpha a div dim a := mean_non a ! j]"

definition configure_prior :: "'g bvhar \<Rightarrow> args \<Rightarrow> vec \<times> mat \<times> vec \<times> mat" where
  \<comment> \<open>\<open>(prior_alpha_mean, prior_alpha_prec, prior_chol_mean, prior_chol_prec)\<close>; the
      \<open>switch\<close> has no \<open>default\<close>, so an unlisted tag keeps the declarations' values\<close>
  "configure_prior B a =
     (let prior_alpha_mean = elems (alloc B ''prior_alpha_mean'' (num_coef a) 1);
          prior_alpha_prec = zero_mat (num_coef a) (num_coef a);
          prior_chol_mean = replicate (num_lowerchol a) 0;
          prior_chol_prec = identity_mat (num_lowerchol a)
      in if prior_type a = 1 then
           (vectorize_eigen B (prior_coef_mean a),
            kronecker_eigen B (prec_diag a) (prior_coef_prec a), prior_chol_mean, prior_chol_prec)
         else if prior_type a = 2 then
           (if include_mean a then fold (ssvs_mean_step a) [0..<dim a] prior_alpha_mean
            else replicate (num_alpha a) 0,
            prior_alpha_prec, prior_chol_mean, prior_chol_prec)
         else if prior_type a = 3 then
           (replicate (num_coef a) 0, prior_alpha_prec, prior_chol_mean, prior_chol_prec)
         else (prior_alpha_mean, prior_alpha_prec, prior_chol_mean, prior_chol_prec))"

subsection \<open>Initialisation (lines 79 to 164)\<close>

definition init_state :: "'g bvhar \<Rightarrow> args \<Rightarrow> 'g \<Rightarrow> 'g state" where
  \<comment> \<open>the arguments, followed by the locals in the order of the record\<close>
  "init_state B a g =
     (let (pam, pap, pcm, pcp) = configure_prior B a;
          coef_ols = llt_solve B (mat_mul (transpose_mat (X0 a)) (X0 a))
                       (mat_mul (transpose_mat (X0 a)) (Y0 a));
          rows = num_iter a + 1;
          coefvec_ols = vectorize_eigen B coef_ols;
          coef_record0 = set_row (zero_mat rows (num_coef a)) 0 coefvec_ols;
          lvol_init_record0 =
            set_row (zero_mat rows (dim a)) 0
              (log_mean_square (mat_sub (Y0 a) (mat_mul (X0 a) coef_ols)))
      in args.extend a
           (state.fields
              \<comment> \<open>\<open>coef_record\<close>\<close>
              coef_record0
              \<comment> \<open>\<open>contem_coef_record\<close>\<close>
              (set_row (zero_mat rows (num_lowerchol a)) 0 (replicate (num_lowerchol a) 0))
              \<comment> \<open>\<open>lvol_sig_record\<close>\<close>
              (set_row (zero_mat rows (dim a)) 0 (replicate (dim a) 0.1))
              \<comment> \<open>\<open>lvol_init_record\<close>\<close>
              lvol_init_record0
              \<comment> \<open>\<open>lvol_record\<close>\<close>
              (set_block (zero_mat (num_design a * rows) (dim a)) 0 0
                 (replicate_row (get_row lvol_init_record0 0) (num_design a)))
              \<comment> \<open>\<open>coef_dummy_record\<close>, \<open>coef_weight_record\<close>\<close>
              (set_row (alloc B ''coef_dummy_record'' rows (num_alpha a)) 0 (replicate (num_alpha a) 1))
              (set_row (alloc B ''coef_weight_record'' rows (num_grp a)) 0 (coef_slab_weight a))
              \<comment> \<open>\<open>contem_dummy_record\<close>, \<open>contem_weight_record\<close>\<close>
              (set_row (alloc B ''contem_dummy_record'' rows (num_lowerchol a)) 0
                 (replicate (num_lowerchol a) 1))
              (set_row (alloc B ''contem_weight_record'' rows (num_lowerchol a)) 0 (chol_slab_weight a))
              \<comment> \<open>\<open>local_record\<close>, \<open>global_record\<close>, \<open>shrink_record\<close>\<close>
              (set_row (alloc B ''local_record'' rows (num_coef a)) 0 (init_local a))
              (set_row (alloc B ''global_record'' rows (num_grp a)) 0 (init_global a))
              (alloc B ''shrink_record'' rows (num_coef a))
              \<comment> \<open>\<open>response_vec\<close>, \<open>design_mat\<close>\<close>
              (vectorize_eigen B (Y0 a))
              (kronecker_eigen B (identity_mat (dim a)) (X0 a))
              \<comment> \<open>\<open>prior_alpha_mean\<close>, \<open>prior_alpha_prec\<close>, \<open>prior_chol_mean\<close>, \<open>prior_chol_prec\<close>\<close>
              pam pap pcm pcp
              \<comment> \<open>\<open>grp_vec\<close>\<close>
              (vectorize_eigen B (grp_mat a))
              \<comment> \<open>\<open>coef_mat\<close>, \<open>chol_lower\<close>, \<open>latent_innov\<close>, \<open>ortho_latent\<close>\<close>
              (unvectorize B (get_row coef_record0 0) (dim_design a) (dim a))
              (zero_mat (dim a) (dim a))
              (alloc B ''latent_innov'' (num_design a) (dim a))
              (alloc B ''ortho_latent'' (num_design a) (dim a))
              \<comment> \<open>\<open>reginnov_stack\<close>, \<open>innov_prec\<close>, \<open>prec_stack\<close>\<close>
              (zero_mat (num_design a * dim a) (num_lowerchol a))
              (zero_mat (num_design a * dim a) (num_design a * dim a))
              (zero_mat (num_design a * dim a) (num_design a * dim a))
              \<comment> \<open>\<open>prior_sd\<close>, \<open>slab_weight_mat\<close>, \<open>global_shrinkage_mat\<close>\<close>
              (elems (alloc B ''prior_sd'' (num_coef a) 1))
              (alloc B ''slab_weight_mat'' (num_alpha a div dim a) (dim a))
              (zero_mat (dim_design a) (dim a))
              \<comment> \<open>\<open>rstate\<close>\<close>
              g))"

subsection \<open>Step 1: the coefficients (lines 200 to 296)\<close>

definition stack_precision :: "nat \<Rightarrow> nat \<Rightarrow> 'g state \<Rightarrow> 'g state" where
  \<comment> \<open>the body of the loop over \<open>t\<close>, lines 202 to 205\<close>
  "stack_precision i t s =
     (let d = dim s;
          ip = set_block_diagonal (innov_prec s) (t * d) (t * d) d
                 (map (\<lambda>h. exp (- h))
                    (get_row (get_block (lvol_record s) (num_design s * (i - 1)) 0 (num_design s) d) t))
      in s\<lparr>innov_prec := ip,
           prec_stack := set_block (prec_stack s) (t * d) (t * d)
             (mat_mul (mat_mul (transpose_mat (chol_lower s)) (get_block ip (t * d) (t * d) d d))
                (chol_lower s))\<rparr>)"

definition build_precision :: "'g bvhar \<Rightarrow> nat \<Rightarrow> 'g state \<Rightarrow> 'g state" where
  \<comment> \<open>lines 200 to 206\<close>
  "build_precision B i s =
     fold (stack_precision i) [0..<num_design s]
       (s\<lparr>chol_lower := build_inv_lower B (dim s) (get_row (contem_coef_record s) (i - 1))\<rparr>)"

definition regress_coef :: "'g bvhar \<Rightarrow> nat \<Rightarrow> 'g state \<Rightarrow> 'g state" where
  \<comment> \<open>\<open>coef_record.row(i) = varsv_regression(design_mat, response_vec, prior_alpha_mean,
      prior_alpha_prec, prec_stack)\<close>\<close>
  "regress_coef B i s =
     (let (v, g) = varsv_regression B (design_mat s) (response_vec s) (prior_alpha_mean s)
                     (prior_alpha_prec s) (prec_stack s) (rstate s)
      in s\<lparr>coef_record := set_row (coef_record s) i v, rstate := g\<rparr>)"

definition ssvs_sd_step :: "vec \<Rightarrow> 'g state \<Rightarrow> nat \<Rightarrow> vec \<Rightarrow> vec" where
  \<comment> \<open>the body of the loop over \<open>j\<close>, lines 221 to 225\<close>
  "ssvs_sd_step coef_mixture_mat s j sd =
     (set_segment sd (j * dim_design s) (num_alpha s div dim s)
        (segment coef_mixture_mat (j * num_alpha s div dim s) (num_alpha s div dim s)))
       [j * dim_design s + num_alpha s div dim s := sd_non s]"

definition coef_ssvs :: "'g bvhar \<Rightarrow> nat \<Rightarrow> 'g state \<Rightarrow> 'g state" where
  \<comment> \<open>\<open>case 2\<close>, lines 218 to 260\<close>
  "coef_ssvs B i s =
     (let coef_mixture_mat =
            build_ssvs_sd B (coef_spike s) (coef_slab s) (get_row (coef_dummy_record s) (i - 1));
          sd = (if include_mean s then fold (ssvs_sd_step coef_mixture_mat s) [0..<dim s] (prior_sd s)
                else coef_mixture_mat);
          s1 = regress_coef B i
                 (s\<lparr>prior_sd := sd,
                    prior_alpha_prec := set_diagonal (prior_alpha_prec s) (map (\<lambda>e. 1 / e\<^sup>2) sd)\<rparr>);
          cm = unvectorize B (get_row (coef_record s1) i) (dim_design s) (dim s);
          swm = fold (\<lambda>j m. select_eq (grp_mat s) (grp_id s ! j)
                              (get_row (coef_weight_record s1) (i - 1) ! j) m)
                  [0..<num_grp s] (slab_weight_mat s1);
          slab_weight = vectorize_eigen B swm;
          (dummy, g1) = ssvs_dummy B (vectorize_eigen B (topRows cm (num_alpha s div dim s)))
                          (coef_slab s) (coef_spike s) slab_weight (rstate s1);
          cdr = set_row (coef_dummy_record s1) i dummy;
          (weight, g2) = ssvs_mn_weight B (grp_vec s) (grp_id s) (get_row cdr i)
                           (coef_s1 s) (coef_s2 s) g1
      in s1\<lparr>coef_mat := cm, slab_weight_mat := swm, coef_dummy_record := cdr,
            coef_weight_record := set_row (coef_weight_record s1) i weight, rstate := g2\<rparr>)"

definition coef_horseshoe :: "'g bvhar \<Rightarrow> nat \<Rightarrow> 'g state \<Rightarrow> 'g state" where
  \<comment> \<open>\<open>case 3\<close>, lines 263 to 294\<close>
  "coef_horseshoe B i s =
     (let gsm = fold (\<lambda>j m. select_eq (grp_mat s) (grp_id s ! j)
                              (get_row (global_record s) (i - 1) ! j) m)
                  [0..<num_grp s] (global_shrinkage_mat s);
          global_shrinkage = vectorize_eigen B gsm;
          pap = build_shrink_mat B global_shrinkage (init_local s);
          s1 = regress_coef B i
                 (s\<lparr>global_shrinkage_mat := gsm, prior_alpha_prec := pap,
                    shrink_record := set_row (shrink_record s) (i - 1)
                      (diagonal (inverse_mat B (mat_add (identity_mat (num_coef s)) pap)))\<rparr>);
          (latent_local, g1) = horseshoe_latent B (get_row (local_record s1) (i - 1)) (rstate s1);
          (latent_global, g2) = horseshoe_latent B (get_row (global_record s1) (i - 1)) g1;
          (il, g3) = horseshoe_local_sparsity B latent_local global_shrinkage
                       (get_row (coef_record s1) i) 1 g2;
          (gl, g4) = horseshoe_mn_global_sparsity B (grp_vec s) (grp_id s) latent_global il
                       (get_row (coef_record s1) i) 1 g3
      in s1\<lparr>init_local := il, local_record := set_row (local_record s1) i il,
            global_record := set_row (global_record s1) i gl, rstate := g4\<rparr>)"

definition draw_coef :: "'g bvhar \<Rightarrow> nat \<Rightarrow> 'g state \<Rightarrow> 'g state" where
  \<comment> \<open>the \<open>switch\<close> of lines 207 to 296; it has no \<open>default\<close>\<close>
  "draw_coef B i s =
     (let s1 = build_precision B i s
      in if prior_type s = 1 then regress_coef B i s1
         else if prior_type s = 2 then coef_ssvs B i s1
         else if prior_type s = 3 then coef_horseshoe B i s1
         else s1)"

subsection \<open>Step 2: the volatility paths (lines 298 to 309)\<close>

definition ht_step :: "'g bvhar \<Rightarrow> nat \<Rightarrow> nat \<Rightarrow> 'g state \<Rightarrow> 'g state" where
  \<comment> \<open>the body of the loop over the equations \<open>t\<close>, lines 303 to 308\<close>
  "ht_step B i t s =
     (let n = num_design s;
          (h, g) = varsv_ht B (get_col_segment (lvol_record s) t (n * (i - 1)) n)
                     (coeff (lvol_init_record s) (i - 1) t) (coeff (lvol_sig_record s) (i - 1) t)
                     (get_col (ortho_latent s) t) (nthreads s) (rstate s)
      in s\<lparr>lvol_record := set_col_segment (lvol_record s) t (n * i) n h, rstate := g\<rparr>)"

definition draw_volatility :: "'g bvhar \<Rightarrow> nat \<Rightarrow> 'g state \<Rightarrow> 'g state" where
  \<comment> \<open>line 298 maps \<open>dim_design * dim\<close> contiguous doubles of the buffer of
      \<open>coef_record\<close>, from the address of entry \<open>(i, 0)\<close> on\<close>
  "draw_volatility B i s =
     (let cm = map_raw (coef_record s) i (dim_design s) (dim s);
          li = mat_sub (Y0 s) (mat_mul (X0 s) cm);
          ol = log_adjust (mat_mul li (transpose_mat (chol_lower s)))
      in fold (ht_step B i) [0..<dim s] (s\<lparr>coef_mat := cm, latent_innov := li, ortho_latent := ol\<rparr>))"

subsection \<open>Step 3: the correlation loadings (lines 311 to 360)\<close>

definition reginnov_row :: "'g state \<Rightarrow> nat \<Rightarrow> nat \<Rightarrow> mat \<times> nat \<Rightarrow> mat \<times> nat" where
  \<comment> \<open>lines 313 and 314: the pair is \<open>(reginnov_stack, reginnov_id)\<close>\<close>
  "reginnov_row s t j = (\<lambda>(M, reginnov_id).
     (set_row_segment M (t * dim s + j) reginnov_id j
        (map uminus (segment (get_row (latent_innov s) t) 0 j)),
      reginnov_id + j))"

definition stack_reginnov :: "'g state \<Rightarrow> mat" where
  \<comment> \<open>lines 311 to 317; \<open>reginnov_id\<close> is back at 0 for every \<open>t\<close>\<close>
  "stack_reginnov s =
     fold (\<lambda>t M. fst (fold (reginnov_row s t) [1..<dim s] (M, 0))) [0..<num_design s]
       (reginnov_stack s)"

definition contem_ssvs :: "'g bvhar \<Rightarrow> nat \<Rightarrow> 'g state \<Rightarrow> 'g state" where
  \<comment> \<open>\<open>case 2\<close>, lines 321 to 330\<close>
  "contem_ssvs B i s =
     (let (contem_dummy, g1) = ssvs_dummy B (get_row (contem_coef_record s) (i - 1))
                                 (chol_slab s) (chol_spike s) (chol_slab_weight s) (rstate s);
          (w, g2) = ssvs_weight B contem_dummy (chol_s1 s) (chol_s2 s) g1
      in s\<lparr>contem_dummy_record := set_row (contem_dummy_record s) i contem_dummy,
           chol_slab_weight := w,
           contem_weight_record := set_row (contem_weight_record s) i w,
           prior_chol_prec := set_diagonal (prior_chol_prec s)
             (map (\<lambda>e. 1 / e\<^sup>2) (build_ssvs_sd B (chol_spike s) (chol_slab s) contem_dummy)),
           rstate := g2\<rparr>)"

definition contem_horseshoe :: "'g bvhar \<Rightarrow> nat \<Rightarrow> 'g state \<Rightarrow> 'g state" where
  \<comment> \<open>\<open>case 3\<close>, lines 334 to 349\<close>
  "contem_horseshoe B i s =
     (let (latent_contem_local, g1) = horseshoe_latent B (init_contem_local s) (rstate s);
          (latent_contem_global, g2) = horseshoe_latent B (init_contem_global s) g1;
          contem_global = vectorize_eigen B (replicate_col (init_contem_global s) (num_lowerchol s));
          (icl, g3) = horseshoe_local_sparsity B latent_contem_local contem_global
                        (get_row (contem_coef_record s) (i - 1)) 1 g2;
          (icg, g4) = horseshoe_global_sparsity B (latent_contem_global ! 0) latent_contem_local
                        (get_row (contem_coef_record s) (i - 1)) 1 g3
      in s\<lparr>init_contem_local := icl,
           init_contem_global := (init_contem_global s)[0 := icg],
           prior_chol_prec := build_shrink_mat B contem_global icl,
           rstate := g4\<rparr>)"

definition draw_contem :: "'g bvhar \<Rightarrow> nat \<Rightarrow> 'g state \<Rightarrow> 'g state" where
  "draw_contem B i s =
     (let s1 = s\<lparr>reginnov_stack := stack_reginnov s\<rparr>;
          s2 = (if prior_type s = 2 then contem_ssvs B i s1
                else if prior_type s = 3 then contem_horseshoe B i s1
                else s1);
          (v, g) = varsv_regression B (reginnov_stack s2) (vectorize_eigen B (latent_innov s2))
                     (prior_chol_mean s2) (prior_chol_prec s2) (innov_prec s2) (rstate s2)
      in s2\<lparr>contem_coef_record := set_row (contem_coef_record s2) i v, rstate := g\<rparr>)"

subsection \<open>Steps 4 and 5: innovation variance and initial state (lines 362 to 375)\<close>

definition draw_sigh :: "'g bvhar \<Rightarrow> nat \<Rightarrow> 'g state \<Rightarrow> 'g state" where
  "draw_sigh B i s =
     (let (v, g) = varsv_sigh B (prior_sig_shp s) (prior_sig_scl s)
                     (get_row (lvol_init_record s) (i - 1))
                     (get_block (lvol_record s) (num_design s * i) 0 (num_design s) (dim s))
                     (rstate s)
      in s\<lparr>lvol_sig_record := set_row (lvol_sig_record s) i v, rstate := g\<rparr>)"

definition draw_h0 :: "'g bvhar \<Rightarrow> nat \<Rightarrow> 'g state \<Rightarrow> 'g state" where
  "draw_h0 B i s =
     (let (v, g) = varsv_h0 B (prior_init_mean s) (prior_init_prec s)
                     (get_row (lvol_init_record s) (i - 1))
                     (get_row (get_block (lvol_record s) (num_design s * i) 0 (num_design s) (dim s)) 0)
                     (get_row (lvol_sig_record s) i)
                     (rstate s)
      in s\<lparr>lvol_init_record := set_row (lvol_init_record s) i v, rstate := g\<rparr>)"

subsection \<open>The loop and the returned list\<close>

definition gibbs_iter :: "'g bvhar \<Rightarrow> nat \<Rightarrow> 'g state \<Rightarrow> 'g state" where
  \<comment> \<open>the body of the loop after the cancellation check, lines 199 to 375\<close>
  "gibbs_iter B i s = draw_h0 B i (draw_sigh B i (draw_contem B i (draw_volatility B i (draw_coef B i s))))"

datatype status = Completed | Cancelled

fun gibbs_loop :: "'g bvhar \<Rightarrow> nat \<Rightarrow> nat \<Rightarrow> 'g state \<Rightarrow> status \<times> 'g state" where
  \<comment> \<open>\<open>for (i = \<dots>; i < num_iter + 1; i++)\<close> with \<open>k\<close> iterations left\<close>
  "gibbs_loop B i 0 s = (Completed, s)"
| "gibbs_loop B i (Suc k) s =
     (if check_abort B i then (Cancelled, s) else gibbs_loop B (Suc i) k (gibbs_iter B i s))"

definition base_bundle :: "(mat \<Rightarrow> mat) \<Rightarrow> 'g state \<Rightarrow> (string \<times> mat) list" where
  \<comment> \<open>the five entries every list starts with; \<open>trim\<close> is applied to all but \<open>h_record\<close>\<close>
  "base_bundle trim s =
     [(''alpha_record'', trim (coef_record s)),
      (''h_record'', lvol_record s),
      (''a_record'', trim (contem_coef_record s)),
      (''h0_record'', trim (lvol_init_record s)),
      (''sigh_record'', trim (lvol_sig_record s))]"

definition returned_list :: "(mat \<Rightarrow> mat) \<Rightarrow> 'g state \<Rightarrow> (string \<times> mat) list" where
  "returned_list trim s =
     (if prior_type s = 2 then
        base_bundle trim s @ [(''gamma_record'', trim (coef_dummy_record s))]
      else if prior_type s = 3 then
        base_bundle trim s @
          [(''lambda_record'', trim (local_record s)),
           (''tau_record'', trim (global_record s)),
           (''kappa_record'', trim (shrink_record s))]
      else base_bundle trim s)"

definition cancelled_bundle :: "'g state \<Rightarrow> (string \<times> mat) list" where
  \<comment> \<open>lines 169 to 196: the matrices as they are\<close>
  "cancelled_bundle s = returned_list (\<lambda>M. M) s"

definition last_shrink :: "'g bvhar \<Rightarrow> 'g state \<Rightarrow> 'g state" where
  \<comment> \<open>line 387, under \<open>prior_type == 3\<close> only\<close>
  "last_shrink B s =
     (if prior_type s = 3 then
        s\<lparr>shrink_record := set_row (shrink_record s) (num_iter s)
             (diagonal (inverse_mat B (mat_add (identity_mat (num_coef s)) (prior_alpha_prec s))))\<rparr>
      else s)"

definition completed_bundle :: "'g bvhar \<Rightarrow> 'g state \<Rightarrow> (string \<times> mat) list" where
  \<comment> \<open>lines 377 to 405: \<open>bottomRows(num_iter - num_burn)\<close> of all but \<open>h_record\<close>; the
      count is negative in the source when \<open>num_burn > num_iter\<close>, where the model has 0\<close>
  "completed_bundle B s =
     returned_list (\<lambda>M. bottomRows M (num_iter s - num_burn s)) (last_shrink B s)"

datatype fault = Integer_division_by_zero

definition run_gibbs :: "'g bvhar \<Rightarrow> args \<Rightarrow> 'g \<Rightarrow> status \<times> 'g state" where
  "run_gibbs B a g = gibbs_loop B 1 (num_iter a) (init_state B a g)"

definition estimate_var_sv :: "'g bvhar \<Rightarrow> args \<Rightarrow> 'g \<Rightarrow> fault + (string \<times> mat) list" where
  \<comment> \<open>line 153 divides \<open>num_alpha\<close> by \<open>dim\<close> whatever the regime: with no response column
      the integer division is by zero and nothing is returned\<close>
  "estimate_var_sv B a g =
     (if dim a = 0 then Inl Integer_division_by_zero
      else case run_gibbs B a g of
             (Cancelled, s) \<Rightarrow> Inr (cancelled_bundle s)
           | (Completed, s) \<Rightarrow> Inr (completed_bundle B s))"

section \<open>Notions used in the statements\<close>

text \<open>
  The shape of a matrix; the part of the state that no iteration changes (the shapes
  of the history matrices and the arguments that are never assigned to); the state
  after a number of iterations; the relation between a recorded and a returned entry;
  the path block of an iteration; and what an iteration is handed by the one before.
\<close>

definition shape_of :: "mat \<Rightarrow> nat \<times> nat \<times> nat" where
  "shape_of M = (nrows M, ncols M, length (elems M))"

definition fixed_args :: "'g state \<Rightarrow> args" where
  "fixed_args s =
     args.truncate (s\<lparr>init_local := [], init_contem_local := [], init_contem_global := [],
                       chol_slab_weight := []\<rparr>)"

definition frame :: "'g state \<Rightarrow> (nat \<times> nat \<times> nat) list \<times> args" where
  "frame s =
     (map shape_of [coef_record s, contem_coef_record s, lvol_sig_record s, lvol_init_record s,
                 lvol_record s, coef_dummy_record s, coef_weight_record s, contem_dummy_record s,
                 contem_weight_record s, local_record s, global_record s, shrink_record s],
      fixed_args s)"

fun run_iters :: "'g bvhar \<Rightarrow> nat \<Rightarrow> nat \<Rightarrow> 'g state \<Rightarrow> 'g state" where
  "run_iters B i 0 s = s"
| "run_iters B i (Suc k) s = run_iters B (Suc i) k (gibbs_iter B i s)"

definition base_names :: "string list" where
  "base_names = [''alpha_record'', ''h_record'', ''a_record'', ''h0_record'', ''sigh_record'']"








section \<open>Concrete instances for the closed theorems\<close>

text \<open>
  For the services: a generator that counts its draws (the state is the number of draws
  made so far, every normal draw is 0 and every chi-square draw is 1), factorisations
  that return their argument, and a few small matrices.
\<close>

definition count_rng :: "nat rng" where
  "count_rng = \<lparr>norm_rand = (\<lambda>g. (0, Suc g)), chisq_rand = (\<lambda>df g. (1, Suc g))\<rparr>"

definition id_ops :: eigen_ops where
  "id_ops = \<lparr>mat_sqrt = (\<lambda>A. A), llt_L = (\<lambda>A. A), mat_inverse = (\<lambda>A. A)\<rparr>"

definition skew_sig :: mat where
  \<comment> \<open>the non-symmetric matrix with rows \<open>(1, 2)\<close> and \<open>(0, 1)\<close>\<close>
  "skew_sig = \<lparr>nrows = 2, ncols = 2, elems = [1, 0, 2, 1]\<rparr>"

definition unit_scale :: "nat \<Rightarrow> mat" where
  "unit_scale n = identity_mat n"

definition mean32 :: mat where
  \<comment> \<open>a \<open>3 \<times> 2\<close> mean matrix\<close>
  "mean32 = zero_mat 3 2"

definition tall_scale :: mat where
  \<comment> \<open>a \<open>3 \<times> 2\<close> matrix offered as a scale: not square\<close>
  "tall_scale = zero_mat 3 2"

text \<open>
  For the sampler: helper functions simple enough to evaluate.  Every draw advances the
  random state by one.  The regression returns the prior mean plus the diagonal of the
  prior precision, the volatility update returns its observation vector, the horseshoe
  updates return their latent argument, and the scale matrix is the diagonal matrix
  of the local scales; uninitialised memory reads as 0 and no interrupt arrives.
\<close>

definition toy :: "nat bvhar" where
  "toy =
     \<lparr>vectorize_eigen = elems,
      unvectorize = (\<lambda>v r c. \<lparr>nrows = r, ncols = c, elems = v\<rparr>),
      kronecker_eigen = (\<lambda>A C. mat_of (nrows A * nrows C) (ncols A * ncols C)
         (\<lambda>i j. coeff A (i div nrows C) (j div ncols C) * coeff C (i mod nrows C) (j mod ncols C))),
      build_inv_lower = (\<lambda>d v. identity_mat d),
      build_ssvs_sd = (\<lambda>spike slab dummy. slab),
      build_shrink_mat = (\<lambda>glob loc. mat_of (length loc) (length loc) (\<lambda>i j. if i = j then loc ! i else 0)),
      varsv_regression = (\<lambda>X v m P Om g. (map (\<lambda>k. m ! k + coeff P k k) [0..<length m], Suc g)),
      ssvs_dummy = (\<lambda>coef slab spike w g. (map (\<lambda>_. 1) coef, Suc g)),
      ssvs_weight = (\<lambda>dummy s1 s2 g. (map (\<lambda>_. 1 / 2) dummy, Suc g)),
      ssvs_mn_weight = (\<lambda>gv gid dummy s1 s2 g. (map (\<lambda>_. 1 / 2) gid, Suc g)),
      horseshoe_latent = (\<lambda>v g. (v, Suc g)),
      horseshoe_local_sparsity = (\<lambda>lat glob coef c g. (lat, Suc g)),
      horseshoe_global_sparsity = (\<lambda>lat latloc coef c g. (lat, Suc g)),
      horseshoe_mn_global_sparsity = (\<lambda>gv gid latg loc coef c g. (latg, Suc g)),
      varsv_ht = (\<lambda>h h0 sig obs nt g. (obs, Suc g)),
      varsv_sigh = (\<lambda>shp scl h0 H g. (scl, Suc g)),
      varsv_h0 = (\<lambda>m P h0 h1 sig g. (h1, Suc g)),
      llt_solve = (\<lambda>A C. zero_mat (ncols A) (ncols C)),
      inverse_mat = (\<lambda>A. A),
      junk = (\<lambda>v k. 0),
      check_abort = (\<lambda>i. False)\<rparr>"

definition toy_args :: "nat \<Rightarrow> nat \<Rightarrow> int \<Rightarrow> mat \<Rightarrow> mat \<Rightarrow> args" where
  \<comment> \<open>iteration count, burn-in, regime tag, design and response; one group, no constant term\<close>
  "toy_args n burn tag X Y =
     \<lparr>num_iter = n, num_burn = burn, X0 = X, Y0 = Y,
      prior_coef_mean = \<lparr>nrows = ncols X, ncols = ncols Y, elems = map real [1..<ncols X * ncols Y + 1]\<rparr>,
      prior_coef_prec = zero_mat (ncols X) (ncols X),
      prec_diag = zero_mat (ncols Y) (ncols Y),
      prior_type = tag,
      init_local = replicate (ncols X * ncols Y) 1,
      init_global = [1],
      init_contem_local = replicate (ncols Y * (ncols Y - 1) div 2) 1,
      init_contem_global = [1],
      grp_id = [1],
      grp_mat = mat_of (ncols X) (ncols Y) (\<lambda>i j. 1),
      coef_spike = replicate (ncols X * ncols Y) (1 / 10),
      coef_slab = replicate (ncols X * ncols Y) 5,
      coef_slab_weight = [1 / 2],
      chol_spike = replicate (ncols Y * (ncols Y - 1) div 2) (1 / 10),
      chol_slab = replicate (ncols Y * (ncols Y - 1) div 2) 5,
      chol_slab_weight = replicate (ncols Y * (ncols Y - 1) div 2) (1 / 2),
      coef_s1 = 1, coef_s2 = 1, chol_s1 = 1, chol_s2 = 1,
      mean_non = replicate (ncols Y) 0, sd_non = 1 / 10,
      include_mean = False, display_progress = False, nthreads = 1\<rparr>"

definition data_X :: mat where
  "data_X = \<lparr>nrows = 2, ncols = 1, elems = [1, 1]\<rparr>"

definition data_Y :: mat where
  "data_Y = \<lparr>nrows = 2, ncols = 2, elems = [1, 2, 3, 5]\<rparr>"


definition X7 :: mat where
  \<comment> \<open>one design row with two regressors\<close>
  "X7 = \<lparr>nrows = 1, ncols = 2, elems = [1, 1]\<rparr>"

definition Y7 :: mat where
  \<comment> \<open>one response\<close>
  "Y7 = \<lparr>nrows = 1, ncols = 1, elems = [5]\<rparr>"

definition run7 :: args where
  \<comment> \<open>two iterations under the Minnesota regime, prior mean \<open>(1, 2)\<close>, zero prior precision\<close>
  "run7 = toy_args 2 0 1 X7 Y7"




section \<open>Shapes\<close>

lemma nrows_mat_of [simp]: "nrows (mat_of r c f) = r"
  by (simp add: mat_of_def)

lemma ncols_mat_of [simp]: "ncols (mat_of r c f) = c"
  by (simp add: mat_of_def)

lemma length_elems_mat_of [simp]: "length (elems (mat_of r c f)) = r * c"
  by (simp add: mat_of_def)

lemma wf_mat_of [simp]: "wf_mat (mat_of r c f)"
  by (simp add: wf_mat_def)

lemma shape_mat_mul [simp]:
  "nrows (mat_mul A B) = nrows A" "ncols (mat_mul A B) = ncols B"
  by (simp_all add: mat_mul_def)

lemma shape_transpose_mat [simp]:
  "nrows (transpose_mat A) = ncols A" "ncols (transpose_mat A) = nrows A"
  by (simp_all add: transpose_mat_def)

lemma shape_add_rowwise [simp]:
  "nrows (add_rowwise A mu) = nrows A" "ncols (add_rowwise A mu) = ncols A"
  by (simp_all add: add_rowwise_def)

lemma shape_mat_add [simp]:
  "nrows (mat_add A B) = nrows A" "ncols (mat_add A B) = ncols A"
  by (simp_all add: mat_add_def)

lemma shape_update_where [simp]:
  "nrows (update_where M P f) = nrows M" "ncols (update_where M P f) = ncols M"
  "length (elems (update_where M P f)) = length (elems M)"
  by (simp_all add: update_where_def)

lemma shape_set_row [simp]:
  "nrows (set_row M i v) = nrows M" "ncols (set_row M i v) = ncols M"
  "length (elems (set_row M i v)) = length (elems M)"
  by (simp_all add: set_row_def)

lemma shape_set_block [simp]:
  "nrows (set_block M i j B) = nrows M" "ncols (set_block M i j B) = ncols M"
  "length (elems (set_block M i j B)) = length (elems M)"
  by (simp_all add: set_block_def)

lemma shape_set_diagonal [simp]:
  "nrows (set_diagonal M v) = nrows M" "ncols (set_diagonal M v) = ncols M"
  "length (elems (set_diagonal M v)) = length (elems M)"
  by (simp_all add: set_diagonal_def)

lemma shape_set_col_segment [simp]:
  "nrows (set_col_segment M j s n v) = nrows M" "ncols (set_col_segment M j s n v) = ncols M"
  "length (elems (set_col_segment M j s n v)) = length (elems M)"
  by (simp_all add: set_col_segment_def)

lemma shape_set_row_segment [simp]:
  "nrows (set_row_segment M i s n v) = nrows M" "ncols (set_row_segment M i s n v) = ncols M"
  "length (elems (set_row_segment M i s n v)) = length (elems M)"
  by (simp_all add: set_row_segment_def)

lemma shape_set_block_diagonal [simp]:
  "nrows (set_block_diagonal M i j n v) = nrows M" "ncols (set_block_diagonal M i j n v) = ncols M"
  "length (elems (set_block_diagonal M i j n v)) = length (elems M)"
  by (simp_all add: set_block_diagonal_def)

lemma shape_bottomRows [simp]:
  "nrows (bottomRows M n) = n" "ncols (bottomRows M n) = ncols M"
  by (simp_all add: bottomRows_def)

lemma shape_fill_norm [simp]:
  "nrows (fst (fill_norm R r c g)) = r" "ncols (fst (fill_norm R r c g)) = c"
  by (simp_all add: fill_norm_def split: prod.splits)

lemma eigen_shapesD:
  assumes "eigen_shapes E"
  shows "nrows (mat_sqrt E A) = nrows A" "ncols (mat_sqrt E A) = ncols A"
    "nrows (llt_L E A) = nrows A" "ncols (llt_L E A) = ncols A"
    "nrows (mat_inverse E A) = nrows A" "ncols (mat_inverse E A) = ncols A"
  using assms by (simp_all add: eigen_shapes_def keeps_shape_def)

lemma eigen_shapes_id_ops: "eigen_shapes id_ops"
  by (simp add: eigen_shapes_def keeps_shape_def id_ops_def)

section \<open>The multivariate-normal services\<close>

text \<open>
  C10.  \<open>sim_mgaussian\<close> and \<open>sim_mgaussian_chol\<close> accept every square \<open>sig\<close> whose
  dimension is the length of \<open>mu\<close>: nothing else about \<open>sig\<close> is checked (the symmetry
  check is commented out), no error is raised, and the result is a
  \<open>num_sim \<times> dim\<close> matrix.
\<close>

theorem sim_mgaussian_accepts_square:
  assumes "eigen_shapes E" and "nrows sig = ncols sig" and "ncols sig = length mu"
  shows "(\<exists>m. fst (sim_mgaussian R E num_sim mu sig g) = Inr m
              \<and> nrows m = num_sim \<and> ncols m = ncols sig)
       \<and> (\<exists>m. fst (sim_mgaussian_chol R E num_sim mu sig g) = Inr m
              \<and> nrows m = num_sim \<and> ncols m = ncols sig)"
proof -
  obtain sn g1 where f: "fill_norm R num_sim (ncols sig) g = (sn, g1)"
    by (cases "fill_norm R num_sim (ncols sig) g")
  have sn: "nrows sn = num_sim"
    using shape_fill_norm(1) [of R num_sim "ncols sig" g] f by simp
  have "fst (sim_mgaussian R E num_sim mu sig g)
          = Inr (add_rowwise (mat_mul sn (mat_sqrt E sig)) mu)"
    using assms(2,3) f by (simp add: sim_mgaussian_def Let_def)
  moreover have "fst (sim_mgaussian_chol R E num_sim mu sig g)
          = Inr (add_rowwise (mat_mul sn (llt_U E sig)) mu)"
    using assms(2,3) f by (simp add: sim_mgaussian_chol_def Let_def)
  ultimately show ?thesis
    using sn assms(2) eigen_shapesD [OF assms(1)] by (simp add: llt_U_def)
qed

theorem sim_mgaussian_accepts_square_witness:
  "eigen_shapes id_ops \<and> nrows skew_sig = ncols skew_sig \<and> ncols skew_sig = length [1, 2 :: real]
   \<and> coeff skew_sig 0 1 \<noteq> coeff skew_sig 1 0
   \<and> (\<exists>m. fst (sim_mgaussian count_rng id_ops 3 [1, 2] skew_sig 0) = Inr m
          \<and> nrows m = 3 \<and> ncols m = 2)
   \<and> (\<exists>m. fst (sim_mgaussian_chol count_rng id_ops 3 [1, 2] skew_sig 0) = Inr m
          \<and> nrows m = 3 \<and> ncols m = 2)"
proof -
  have sq: "nrows skew_sig = ncols skew_sig" and len: "ncols skew_sig = length [1, 2 :: real]"
    by (simp_all add: skew_sig_def)
  have ns: "coeff skew_sig 0 1 \<noteq> coeff skew_sig 1 0"
    by (simp add: skew_sig_def coeff_def)
  show ?thesis
    using sim_mgaussian_accepts_square [OF eigen_shapes_id_ops sq len, of count_rng 3 0]
      eigen_shapes_id_ops sq len ns
    by (simp add: skew_sig_def)
qed

section \<open>The inverse-Wishart services\<close>

lemma sim_iw_tri_wrong_shape:
  "shape \<le> real_of_int (int (ncols S) - 1) \<Longrightarrow> sim_iw_tri R E S shape g = (Inl Wrong_shape, g)"
  by (simp add: sim_iw_tri_def)

lemma sim_iw_tri_wrong_shape_iff:
  "fst (sim_iw_tri R E S shape g) = Inl Wrong_shape \<longleftrightarrow> shape \<le> real_of_int (int (ncols S) - 1)"
  by (simp add: sim_iw_tri_def Let_def split: prod.splits)

lemma sim_iw_wrong_shape_iff:
  "fst (sim_iw R E S shape g) = Inl Wrong_shape \<longleftrightarrow> shape \<le> real_of_int (int (ncols S) - 1)"
proof -
  have "fst (sim_iw R E S shape g) = Inl Wrong_shape
          \<longleftrightarrow> fst (sim_iw_tri R E S shape g) = Inl Wrong_shape"
    by (cases "sim_iw_tri R E S shape g") (auto simp: sim_iw_def split: sum.splits)
  then show ?thesis by (simp add: sim_iw_tri_wrong_shape_iff)
qed

lemma sim_iw_wrong_shape:
  "shape \<le> real_of_int (int (ncols S) - 1) \<Longrightarrow> sim_iw R E S shape g = (Inl Wrong_shape, g)"
  by (simp add: sim_iw_def sim_iw_tri_wrong_shape)

lemma sim_matgaussian_not_wrong_shape:
  "fst (sim_matgaussian R E M U V g) \<noteq> Inl Wrong_shape"
  by (simp add: sim_matgaussian_def Let_def split: prod.splits)

lemma mniw_loop_wrong_shape:
  "fst (mniw_loop R E M U S shape i k res_mn res_iw g) = Inl Wrong_shape
     \<Longrightarrow> shape \<le> real_of_int (int (ncols S) - 1)"
proof (induction k arbitrary: i res_mn res_iw g)
  case 0
  then show ?case by simp
next
  case (Suc k)
  show ?case
  proof (cases "sim_iw_tri R E S shape g")
    case (Pair r g1)
    show ?thesis
    proof (cases r)
      case (Inl e)
      with Pair Suc.prems have "fst (sim_iw_tri R E S shape g) = Inl Wrong_shape"
        by simp
      then show ?thesis by (simp add: sim_iw_tri_wrong_shape_iff)
    next
      case (Inr chol_res)
      let ?V = "mat_mul chol_res (transpose_mat chol_res)"
      show ?thesis
      proof (cases "sim_matgaussian R E M U ?V g1")
        case mg: (Pair r2 g2)
        show ?thesis
        proof (cases r2)
          case e2: (Inl e)
          with mg Inr Pair Suc.prems have "fst (sim_matgaussian R E M U ?V g1) = Inl Wrong_shape"
            by (simp add: Let_def)
          then show ?thesis by (simp add: sim_matgaussian_not_wrong_shape)
        next
          case y: (Inr y)
          with mg Inr Pair Suc.prems Suc.IH show ?thesis
            by (simp add: Let_def)
        qed
      qed
    qed
  qed
qed

lemma sim_mniw_wrong_shape_iff:
  assumes "nrows S = ncols S" and "0 < num_sim"
  shows "fst (sim_mniw R E fresh num_sim M U S shape g) = Inl Wrong_shape
           \<longleftrightarrow> shape \<le> real_of_int (int (ncols S) - 1)"
proof
  assume a: "fst (sim_mniw R E fresh num_sim M U S shape g) = Inl Wrong_shape"
  let ?l = "mniw_loop R E M U S shape 0 num_sim
              (fresh (nrows M) (num_sim * ncols M)) (fresh (ncols S) (num_sim * ncols S)) g"
  have "fst ?l = Inl Wrong_shape"
    using a assms(1) by (cases ?l) (auto simp: sim_mniw_def Let_def split: sum.splits)
  then show "shape \<le> real_of_int (int (ncols S) - 1)"
    by (rule mniw_loop_wrong_shape)
next
  assume b: "shape \<le> real_of_int (int (ncols S) - 1)"
  obtain k where k: "num_sim = Suc k"
    using assms(2) by (cases num_sim) auto
  show "fst (sim_mniw R E fresh num_sim M U S shape g) = Inl Wrong_shape"
    using assms(1) by (simp add: sim_mniw_def Let_def k sim_iw_tri_wrong_shape [OF b])
qed

lemma sim_mniw_wrong_shape_rng:
  assumes "nrows S = ncols S" and "0 < num_sim" and "shape \<le> real_of_int (int (ncols S) - 1)"
  shows "snd (sim_mniw R E fresh num_sim M U S shape g) = g"
proof -
  obtain k where k: "num_sim = Suc k"
    using assms(2) by (cases num_sim) auto
  show ?thesis
    using assms(1) by (simp add: sim_mniw_def Let_def k sim_iw_tri_wrong_shape [OF assms(3)])
qed

text \<open>
  C5, as stated, fails for \<open>sim_mniw\<close>: it reaches \<open>sim_iw_tri\<close> only inside its loop
  over \<open>num_sim\<close>, so with \<open>num_sim = 0\<close> a shape of \<open>0\<close> for a \<open>2 \<times> 2\<close> scale matrix
  raises nothing and the (empty) result list is returned.
\<close>

theorem sim_mniw_zero_sims_no_shape_error:
  "(0::real) \<le> real_of_int (int (ncols (unit_scale 2)) - 1)
   \<and> \<not> (\<exists>e. fst (sim_mniw count_rng id_ops zero_mat 0 (zero_mat 2 2) (unit_scale 2)
                   (unit_scale 2) 0 0) = Inl e)"
  by (simp add: sim_mniw_def unit_scale_def identity_mat_def)

text \<open>
  C5, amended.  \<open>sim_iw_tri\<close> and \<open>sim_iw\<close> fail with the invalid-hyperparameter error
  exactly when \<open>shape \<le> dim - 1\<close>, \<open>dim\<close> the column count of the scale matrix (the
  check comes first, before the squareness check); \<open>sim_mniw\<close> does so exactly when
  \<open>shape \<le> dim - 1\<close>, provided the scale matrix is square and \<open>num_sim \<ge> 1\<close>.  In each
  case the error is raised before any random draw: the random state is unchanged.
\<close>

theorem iw_shape_error_iff:
  "((\<exists>e. fst (sim_iw_tri R E S shape g) = Inl e \<and> invalid_hyperparameter e)
      \<longleftrightarrow> shape \<le> real_of_int (int (ncols S) - 1))
   \<and> ((\<exists>e. fst (sim_iw R E S shape g) = Inl e \<and> invalid_hyperparameter e)
      \<longleftrightarrow> shape \<le> real_of_int (int (ncols S) - 1))
   \<and> (nrows S = ncols S \<longrightarrow> 0 < num_sim \<longrightarrow>
        ((\<exists>e. fst (sim_mniw R E fresh num_sim M U S shape g) = Inl e \<and> invalid_hyperparameter e)
           \<longleftrightarrow> shape \<le> real_of_int (int (ncols S) - 1)))
   \<and> (shape \<le> real_of_int (int (ncols S) - 1) \<longrightarrow>
        snd (sim_iw_tri R E S shape g) = g \<and> snd (sim_iw R E S shape g) = g
        \<and> (nrows S = ncols S \<longrightarrow> 0 < num_sim \<longrightarrow>
             snd (sim_mniw R E fresh num_sim M U S shape g) = g))"
  by (simp add: invalid_hyperparameter_def sim_iw_tri_wrong_shape_iff sim_iw_wrong_shape_iff
      sim_mniw_wrong_shape_iff sim_mniw_wrong_shape_rng sim_iw_tri_wrong_shape sim_iw_wrong_shape)

theorem iw_shape_error_iff_witness:
  "nrows (unit_scale 3) = ncols (unit_scale 3) \<and> (0::nat) < 1
   \<and> (2::real) \<le> real_of_int (int (ncols (unit_scale 3)) - 1)
   \<and> (\<exists>e. fst (sim_iw_tri count_rng id_ops (unit_scale 3) 2 0) = Inl e \<and> invalid_hyperparameter e)
   \<and> (\<exists>e. fst (sim_iw count_rng id_ops (unit_scale 3) 2 0) = Inl e \<and> invalid_hyperparameter e)
   \<and> (\<exists>e. fst (sim_mniw count_rng id_ops zero_mat 1 (zero_mat 3 3) (unit_scale 3)
               (unit_scale 3) 2 0) = Inl e \<and> invalid_hyperparameter e)
   \<and> snd (sim_iw_tri count_rng id_ops (unit_scale 3) 2 0) = 0
   \<and> snd (sim_iw count_rng id_ops (unit_scale 3) 2 0) = 0
   \<and> snd (sim_mniw count_rng id_ops zero_mat 1 (zero_mat 3 3) (unit_scale 3) (unit_scale 3) 2 0) = 0"
  using iw_shape_error_iff [of count_rng id_ops "unit_scale 3" 2 0 1 zero_mat "zero_mat 3 3"
      "unit_scale 3"]
  by (simp add: unit_scale_def identity_mat_def)

section \<open>Dimension checks of the services\<close>

lemma sim_iw_tri_draws:
  assumes "\<not> shape \<le> real_of_int (int (ncols S) - 1)" and "nrows S = ncols S"
  shows "\<exists>c g1. sim_iw_tri R E S shape g = (Inr c, g1) \<and> nrows c = nrows (llt_L E S)"
  using assms by (simp add: sim_iw_tri_def Let_def split: prod.splits)

lemma sim_matgaussian_mismatch:
  assumes "nrows V = ncols V"
    and "\<not> (nrows U = ncols U \<and> nrows M = nrows U \<and> ncols M = nrows V)"
  shows "\<exists>e. sim_matgaussian R E M U V g = (Inl e, g) \<and> dimension_mismatch e"
  using assms by (auto simp: sim_matgaussian_def Let_def dimension_mismatch_def)

lemma sim_mniw_late_mismatch:
  assumes E: "keeps_shape (llt_L E)" and sq: "nrows S = ncols S" and n: "0 < num_sim"
    and sh: "\<not> shape \<le> real_of_int (int (ncols S) - 1)"
    and mm: "\<not> (nrows U = ncols U \<and> nrows M = nrows U \<and> ncols M = ncols S)"
  shows "\<exists>e g1. sim_mniw R E fresh num_sim M U S shape g = (Inl e, g1) \<and> dimension_mismatch e"
proof -
  obtain k where k: "num_sim = Suc k"
    using n by (cases num_sim) auto
  obtain c g1 where tri: "sim_iw_tri R E S shape g = (Inr c, g1)"
    and c: "nrows c = nrows (llt_L E S)"
    using sim_iw_tri_draws [OF sh sq, where R = R and E = E and g = g] by blast
  let ?V = "mat_mul c (transpose_mat c)"
  have cS: "nrows c = ncols S"
    using c E sq by (simp add: keeps_shape_def)
  have V: "nrows ?V = ncols ?V" and VS: "nrows ?V = ncols S"
    using cS by simp_all
  from mm VS have "\<not> (nrows U = ncols U \<and> nrows M = nrows U \<and> ncols M = nrows ?V)"
    by simp
  from sim_matgaussian_mismatch [OF V this, where R = R and E = E and g = g1]
  obtain e where mg: "sim_matgaussian R E M U ?V g1 = (Inl e, g1)" and e: "dimension_mismatch e"
    by blast
  have "sim_mniw R E fresh num_sim M U S shape g = (Inl e, g1)"
    using sq by (simp add: sim_mniw_def Let_def k tri mg)
  with e show ?thesis by blast
qed

text \<open>
  C6, as stated, fails for \<open>sim_mniw\<close>: the only check it makes before drawing is that
  the inverse-Wishart scale is square.  With a \<open>3 \<times> 2\<close> mean, a \<open>3 \<times> 3\<close> first scale
  and a \<open>3 \<times> 3\<close> inverse-Wishart scale (shape 3, one simulation) the mismatch with the
  mean's two columns is found by \<open>sim_matgaussian\<close>, inside the loop, after
  \<open>sim_iw_tri\<close> has made its six draws: the error is the dimension error and nothing
  is returned, but the random state has advanced from 0 to 6.
\<close>

theorem sim_mniw_draws_before_dimension_error:
  "sim_mniw count_rng id_ops zero_mat 1 mean32 (unit_scale 3) (unit_scale 3) 3 0
     = (Inl Invalid_mat_scale_v_dimension, 6)"
  by (simp add: sim_mniw_def sim_iw_tri_def sim_matgaussian_def mean32_def unit_scale_def
      identity_mat_def zero_mat_def count_rng_def id_ops_def Let_def eval_nat_numeral)

text \<open>
  C6, amended.  \<open>sim_mgaussian\<close>, \<open>sim_mgaussian_chol\<close> and \<open>sim_matgaussian\<close> check
  that their scale matrices are square and fit the mean before drawing, and fail with a
  dimension error that leaves the random state untouched.  \<open>sim_iw\<close> checks the shape
  first and then, before drawing, that the scale is square.  \<open>sim_mniw\<close> checks before
  drawing only that the inverse-Wishart scale is square; a first scale that is not
  square or does not fit the mean, or a mean whose column count is not the
  inverse-Wishart dimension, is found inside the loop after the inverse-Wishart factor
  has been drawn (so for \<open>num_sim \<ge> 1\<close> and a valid shape): the call then fails with a
  dimension error and returns no output.
\<close>

theorem services_dimension_checks:
  "((nrows sig \<noteq> ncols sig \<or> ncols sig \<noteq> length mu) \<longrightarrow>
       (\<exists>e. sim_mgaussian R E num_sim mu sig g = (Inl e, g) \<and> dimension_mismatch e)
     \<and> (\<exists>e. sim_mgaussian_chol R E num_sim mu sig g = (Inl e, g) \<and> dimension_mismatch e))
   \<and> (\<not> (nrows U = ncols U \<and> nrows M = nrows U \<and> nrows V = ncols V \<and> ncols M = nrows V) \<longrightarrow>
       (\<exists>e. sim_matgaussian R E M U V g = (Inl e, g) \<and> dimension_mismatch e))
   \<and> (\<not> shape \<le> real_of_int (int (ncols S) - 1) \<longrightarrow> nrows S \<noteq> ncols S \<longrightarrow>
       sim_iw R E S shape g = (Inl Invalid_mat_scale_dimension, g))
   \<and> (nrows S \<noteq> ncols S \<longrightarrow>
       sim_mniw R E fresh num_sim M U S shape g = (Inl Invalid_mat_scale_dimension, g))
   \<and> (keeps_shape (llt_L E) \<longrightarrow> nrows S = ncols S \<longrightarrow> 0 < num_sim \<longrightarrow>
       \<not> shape \<le> real_of_int (int (ncols S) - 1) \<longrightarrow>
       \<not> (nrows U = ncols U \<and> nrows M = nrows U \<and> ncols M = ncols S) \<longrightarrow>
       (\<exists>e g1. sim_mniw R E fresh num_sim M U S shape g = (Inl e, g1) \<and> dimension_mismatch e))"
proof -
  have a: "(nrows sig \<noteq> ncols sig \<or> ncols sig \<noteq> length mu) \<longrightarrow>
       (\<exists>e. sim_mgaussian R E num_sim mu sig g = (Inl e, g) \<and> dimension_mismatch e)
     \<and> (\<exists>e. sim_mgaussian_chol R E num_sim mu sig g = (Inl e, g) \<and> dimension_mismatch e)"
    by (auto simp: sim_mgaussian_def sim_mgaussian_chol_def Let_def dimension_mismatch_def)
  have b: "\<not> (nrows U = ncols U \<and> nrows M = nrows U \<and> nrows V = ncols V \<and> ncols M = nrows V) \<longrightarrow>
       (\<exists>e. sim_matgaussian R E M U V g = (Inl e, g) \<and> dimension_mismatch e)"
    by (auto simp: sim_matgaussian_def Let_def dimension_mismatch_def)
  have c: "\<not> shape \<le> real_of_int (int (ncols S) - 1) \<longrightarrow> nrows S \<noteq> ncols S \<longrightarrow>
       sim_iw R E S shape g = (Inl Invalid_mat_scale_dimension, g)"
    by (simp add: sim_iw_def sim_iw_tri_def Let_def)
  have d: "nrows S \<noteq> ncols S \<longrightarrow>
       sim_mniw R E fresh num_sim M U S shape g = (Inl Invalid_mat_scale_dimension, g)"
    by (auto simp: sim_mniw_def Let_def)
  have e: "keeps_shape (llt_L E) \<longrightarrow> nrows S = ncols S \<longrightarrow> 0 < num_sim \<longrightarrow>
       \<not> shape \<le> real_of_int (int (ncols S) - 1) \<longrightarrow>
       \<not> (nrows U = ncols U \<and> nrows M = nrows U \<and> ncols M = ncols S) \<longrightarrow>
       (\<exists>e g1. sim_mniw R E fresh num_sim M U S shape g = (Inl e, g1) \<and> dimension_mismatch e)"
    using sim_mniw_late_mismatch [of E S num_sim shape U M R fresh g] by blast
  from a b c d e show ?thesis by blast
qed

theorem services_dimension_checks_witness:
  "nrows tall_scale \<noteq> ncols tall_scale
   \<and> (\<exists>e. sim_mgaussian count_rng id_ops 1 [1, 2] tall_scale 0 = (Inl e, 0) \<and> dimension_mismatch e)
   \<and> (\<exists>e. sim_mgaussian_chol count_rng id_ops 1 [1, 2] tall_scale 0 = (Inl e, 0)
          \<and> dimension_mismatch e)
   \<and> \<not> (nrows (unit_scale 3) = ncols (unit_scale 3) \<and> nrows mean32 = nrows (unit_scale 3)
       \<and> nrows tall_scale = ncols tall_scale \<and> ncols mean32 = nrows tall_scale)
   \<and> (\<exists>e. sim_matgaussian count_rng id_ops mean32 (unit_scale 3) tall_scale 0 = (Inl e, 0)
          \<and> dimension_mismatch e)
   \<and> \<not> (3::real) \<le> real_of_int (int (ncols tall_scale) - 1)
   \<and> sim_iw count_rng id_ops tall_scale 3 0 = (Inl Invalid_mat_scale_dimension, 0)
   \<and> sim_mniw count_rng id_ops zero_mat 1 mean32 (unit_scale 3) tall_scale 3 0
       = (Inl Invalid_mat_scale_dimension, 0)
   \<and> keeps_shape (llt_L id_ops) \<and> nrows (unit_scale 3) = ncols (unit_scale 3)
   \<and> \<not> (3::real) \<le> real_of_int (int (ncols (unit_scale 3)) - 1)
   \<and> \<not> (nrows (unit_scale 3) = ncols (unit_scale 3) \<and> nrows mean32 = nrows (unit_scale 3)
         \<and> ncols mean32 = ncols (unit_scale 3))
   \<and> (\<exists>e g1. sim_mniw count_rng id_ops zero_mat 1 mean32 (unit_scale 3) (unit_scale 3) 3 0
                = (Inl e, g1) \<and> dimension_mismatch e)"
proof -
  have ks: "keeps_shape (llt_L id_ops)"
    by (simp add: keeps_shape_def id_ops_def)
  show ?thesis
    using services_dimension_checks [where sig = tall_scale and mu = "[1, 2]" and R = count_rng
        and E = id_ops and num_sim = 1 and g = 0 and U = "unit_scale 3" and M = mean32
        and V = tall_scale and shape = 3 and S = tall_scale and fresh = zero_mat]
      services_dimension_checks [where sig = tall_scale and mu = "[1, 2]" and R = count_rng
        and E = id_ops and num_sim = 1 and g = 0 and U = "unit_scale 3" and M = mean32
        and V = tall_scale and shape = 3 and S = "unit_scale 3" and fresh = zero_mat]
      ks
    by (simp add: tall_scale_def mean32_def unit_scale_def identity_mat_def zero_mat_def)
qed

section \<open>Reading what was written\<close>


lemma wf_update_where [simp]: "wf_mat (update_where M P f) = wf_mat M"
  by (simp add: wf_mat_def)




lemma fold_keeps:
  assumes "\<And>t s. P (f t s) = P s"
  shows "P (fold f ts s) = P s"
  using assms by (induction ts arbitrary: s) simp_all

section \<open>What an iteration leaves alone\<close>

text \<open>
  No statement of the loop resizes a history matrix or assigns to an argument other than
  \<open>init_local\<close>, \<open>init_contem_local\<close>, \<open>init_contem_global\<close> and \<open>chol_slab_weight\<close>.
\<close>

lemma shape_simps [simp]:
  "shape_of (set_row M i v) = shape_of M"
  "shape_of (set_col_segment M j s n v) = shape_of M"
  by (simp_all add: shape_of_def)

lemma frame_work_update [simp]:
  "frame (s\<lparr>response_vec := v_response_vec\<rparr>) = frame s"
  "frame (s\<lparr>design_mat := v_design_mat\<rparr>) = frame s"
  "frame (s\<lparr>prior_alpha_mean := v_prior_alpha_mean\<rparr>) = frame s"
  "frame (s\<lparr>prior_alpha_prec := v_prior_alpha_prec\<rparr>) = frame s"
  "frame (s\<lparr>prior_chol_mean := v_prior_chol_mean\<rparr>) = frame s"
  "frame (s\<lparr>prior_chol_prec := v_prior_chol_prec\<rparr>) = frame s"
  "frame (s\<lparr>grp_vec := v_grp_vec\<rparr>) = frame s"
  "frame (s\<lparr>coef_mat := v_coef_mat\<rparr>) = frame s"
  "frame (s\<lparr>chol_lower := v_chol_lower\<rparr>) = frame s"
  "frame (s\<lparr>latent_innov := v_latent_innov\<rparr>) = frame s"
  "frame (s\<lparr>ortho_latent := v_ortho_latent\<rparr>) = frame s"
  "frame (s\<lparr>reginnov_stack := v_reginnov_stack\<rparr>) = frame s"
  "frame (s\<lparr>innov_prec := v_innov_prec\<rparr>) = frame s"
  "frame (s\<lparr>prec_stack := v_prec_stack\<rparr>) = frame s"
  "frame (s\<lparr>prior_sd := v_prior_sd\<rparr>) = frame s"
  "frame (s\<lparr>slab_weight_mat := v_slab_weight_mat\<rparr>) = frame s"
  "frame (s\<lparr>global_shrinkage_mat := v_global_shrinkage_mat\<rparr>) = frame s"
  "frame (s\<lparr>rstate := v_rstate\<rparr>) = frame s"
  "frame (s\<lparr>init_local := v_init_local\<rparr>) = frame s"
  "frame (s\<lparr>init_contem_local := v_init_contem_local\<rparr>) = frame s"
  "frame (s\<lparr>init_contem_global := v_init_contem_global\<rparr>) = frame s"
  "frame (s\<lparr>chol_slab_weight := v_chol_slab_weight\<rparr>) = frame s"
  by (simp_all add: frame_def fixed_args_def args.truncate_def)

lemma frame_record_update [simp]:
  "shape_of M = shape_of (coef_record s) \<Longrightarrow> frame (s\<lparr>coef_record := M\<rparr>) = frame s"
  "shape_of M = shape_of (contem_coef_record s) \<Longrightarrow> frame (s\<lparr>contem_coef_record := M\<rparr>) = frame s"
  "shape_of M = shape_of (lvol_sig_record s) \<Longrightarrow> frame (s\<lparr>lvol_sig_record := M\<rparr>) = frame s"
  "shape_of M = shape_of (lvol_init_record s) \<Longrightarrow> frame (s\<lparr>lvol_init_record := M\<rparr>) = frame s"
  "shape_of M = shape_of (lvol_record s) \<Longrightarrow> frame (s\<lparr>lvol_record := M\<rparr>) = frame s"
  "shape_of M = shape_of (coef_dummy_record s) \<Longrightarrow> frame (s\<lparr>coef_dummy_record := M\<rparr>) = frame s"
  "shape_of M = shape_of (coef_weight_record s) \<Longrightarrow> frame (s\<lparr>coef_weight_record := M\<rparr>) = frame s"
  "shape_of M = shape_of (contem_dummy_record s) \<Longrightarrow> frame (s\<lparr>contem_dummy_record := M\<rparr>) = frame s"
  "shape_of M = shape_of (contem_weight_record s) \<Longrightarrow> frame (s\<lparr>contem_weight_record := M\<rparr>) = frame s"
  "shape_of M = shape_of (local_record s) \<Longrightarrow> frame (s\<lparr>local_record := M\<rparr>) = frame s"
  "shape_of M = shape_of (global_record s) \<Longrightarrow> frame (s\<lparr>global_record := M\<rparr>) = frame s"
  "shape_of M = shape_of (shrink_record s) \<Longrightarrow> frame (s\<lparr>shrink_record := M\<rparr>) = frame s"
  by (simp_all add: frame_def fixed_args_def args.truncate_def)

lemma frame_dims:
  assumes "frame s' = frame s"
  shows "dim s' = dim s" "dim_design s' = dim_design s" "num_design s' = num_design s"
    "num_coef s' = num_coef s" "num_alpha s' = num_alpha s" "num_lowerchol s' = num_lowerchol s"
    "num_grp s' = num_grp s" "prior_type s' = prior_type s" "num_iter s' = num_iter s"
    "num_burn s' = num_burn s"
proof -
  have f: "fixed_args s' = fixed_args s" using assms by (simp add: frame_def)
  have Y: "Y0 s' = Y0 s" using arg_cong [OF f, of Y0] by (simp add: fixed_args_def args.truncate_def)
  have X: "X0 s' = X0 s" using arg_cong [OF f, of X0] by (simp add: fixed_args_def args.truncate_def)
  have im: "include_mean s' = include_mean s"
    using arg_cong [OF f, of include_mean] by (simp add: fixed_args_def args.truncate_def)
  have gi: "grp_id s' = grp_id s"
    using arg_cong [OF f, of grp_id] by (simp add: fixed_args_def args.truncate_def)
  show "dim s' = dim s" "dim_design s' = dim_design s" "num_design s' = num_design s"
    "num_coef s' = num_coef s" "num_alpha s' = num_alpha s" "num_lowerchol s' = num_lowerchol s"
    "num_grp s' = num_grp s"
    using Y X im gi
    by (simp_all add: dim_def dim_design_def num_design_def num_coef_def num_alpha_def
        num_lowerchol_def num_grp_def)
  show "prior_type s' = prior_type s"
    using arg_cong [OF f, of prior_type] by (simp add: fixed_args_def args.truncate_def)
  show "num_iter s' = num_iter s"
    using arg_cong [OF f, of num_iter] by (simp add: fixed_args_def args.truncate_def)
  show "num_burn s' = num_burn s"
    using arg_cong [OF f, of num_burn] by (simp add: fixed_args_def args.truncate_def)
qed

lemma frame_shapes:
  assumes "frame s' = frame s"
  shows "shape_of (coef_record s') = shape_of (coef_record s)"
    "shape_of (contem_coef_record s') = shape_of (contem_coef_record s)"
    "shape_of (lvol_sig_record s') = shape_of (lvol_sig_record s)"
    "shape_of (lvol_init_record s') = shape_of (lvol_init_record s)"
    "shape_of (lvol_record s') = shape_of (lvol_record s)"
    "shape_of (coef_dummy_record s') = shape_of (coef_dummy_record s)"
    "shape_of (coef_weight_record s') = shape_of (coef_weight_record s)"
    "shape_of (contem_dummy_record s') = shape_of (contem_dummy_record s)"
    "shape_of (contem_weight_record s') = shape_of (contem_weight_record s)"
    "shape_of (local_record s') = shape_of (local_record s)"
    "shape_of (global_record s') = shape_of (global_record s)"
    "shape_of (shrink_record s') = shape_of (shrink_record s)"
  using assms by (simp_all add: frame_def)

lemma frame_stack_precision [simp]: "frame (stack_precision i t s) = frame s"
  by (simp add: stack_precision_def Let_def)

lemma frame_fold_stack_precision [simp]: "frame (fold (stack_precision i) ts s) = frame s"
  by (rule fold_keeps) simp

lemma frame_build_precision [simp]: "frame (build_precision B i s) = frame s"
  by (simp add: build_precision_def)

lemma frame_regress_coef [simp]: "frame (regress_coef B i s) = frame s"
  by (simp add: regress_coef_def Let_def split: prod.splits)

lemma frame_coef_ssvs [simp]: "frame (coef_ssvs B i s) = frame s"
  by (simp add: coef_ssvs_def Let_def split: prod.splits)

lemma frame_coef_horseshoe [simp]: "frame (coef_horseshoe B i s) = frame s"
  by (simp add: coef_horseshoe_def Let_def split: prod.splits)

lemma frame_draw_coef [simp]: "frame (draw_coef B i s) = frame s"
  by (simp add: draw_coef_def Let_def)

lemma frame_ht_step [simp]: "frame (ht_step B i t s) = frame s"
  by (simp add: ht_step_def Let_def split: prod.splits)

lemma frame_fold_ht_step [simp]: "frame (fold (ht_step B i) ts s) = frame s"
  by (rule fold_keeps) simp

lemma frame_draw_volatility [simp]: "frame (draw_volatility B i s) = frame s"
  by (simp add: draw_volatility_def Let_def)

lemma frame_contem_ssvs [simp]: "frame (contem_ssvs B i s) = frame s"
  by (simp add: contem_ssvs_def Let_def split: prod.splits)

lemma frame_contem_horseshoe [simp]: "frame (contem_horseshoe B i s) = frame s"
  by (simp add: contem_horseshoe_def Let_def split: prod.splits)

lemma frame_draw_contem [simp]: "frame (draw_contem B i s) = frame s"
  by (simp add: draw_contem_def Let_def split: prod.splits)

lemma frame_draw_sigh [simp]: "frame (draw_sigh B i s) = frame s"
  by (simp add: draw_sigh_def Let_def split: prod.splits)

lemma frame_draw_h0 [simp]: "frame (draw_h0 B i s) = frame s"
  by (simp add: draw_h0_def Let_def split: prod.splits)

lemma frame_gibbs_iter [simp]: "frame (gibbs_iter B i s) = frame s"
  by (simp add: gibbs_iter_def)

lemma frame_gibbs_loop: "frame (snd (gibbs_loop B i k s)) = frame s"
  by (induction k arbitrary: i s) simp_all

section \<open>The initial state and the loop\<close>

lemma init_fields:
  "prior_type (init_state B a g) = prior_type a"
  "num_iter (init_state B a g) = num_iter a"
  "num_burn (init_state B a g) = num_burn a"
  "Y0 (init_state B a g) = Y0 a"
  "X0 (init_state B a g) = X0 a"
  "include_mean (init_state B a g) = include_mean a"
  "grp_id (init_state B a g) = grp_id a"
  by (simp_all add: init_state_def Let_def args.defs state.defs split: prod.splits)

lemma shape_alloc [simp]:
  "nrows (alloc B v r c) = r" "ncols (alloc B v r c) = c" "length (elems (alloc B v r c)) = r * c"
  by (simp_all add: alloc_def)

lemma init_rows:
  "nrows (coef_record (init_state B a g)) = num_iter a + 1"
  "nrows (contem_coef_record (init_state B a g)) = num_iter a + 1"
  "nrows (lvol_sig_record (init_state B a g)) = num_iter a + 1"
  "nrows (lvol_init_record (init_state B a g)) = num_iter a + 1"
  "nrows (lvol_record (init_state B a g)) = num_design a * (num_iter a + 1)"
  "nrows (coef_dummy_record (init_state B a g)) = num_iter a + 1"
  "nrows (local_record (init_state B a g)) = num_iter a + 1"
  "nrows (global_record (init_state B a g)) = num_iter a + 1"
  "nrows (shrink_record (init_state B a g)) = num_iter a + 1"
  by (simp_all add: init_state_def Let_def args.defs state.defs zero_mat_def split: prod.splits)

lemma frame_run_iters [simp]: "frame (run_iters B i k s) = frame s"
  by (induction k arbitrary: i s) simp_all

lemma gibbs_loop_completed:
  "(\<And>j. i \<le> j \<Longrightarrow> j < i + k \<Longrightarrow> \<not> check_abort B j)
     \<Longrightarrow> gibbs_loop B i k s = (Completed, run_iters B i k s)"
  by (induction k arbitrary: i s) simp_all


text \<open>The rows of the history matrices at any point of the run.\<close>

lemma run_rows:
  assumes "frame s = frame (init_state B a g)"
  shows "nrows (coef_record s) = num_iter a + 1"
    "nrows (contem_coef_record s) = num_iter a + 1"
    "nrows (lvol_sig_record s) = num_iter a + 1"
    "nrows (lvol_init_record s) = num_iter a + 1"
    "nrows (lvol_record s) = num_design a * (num_iter a + 1)"
    "nrows (coef_dummy_record s) = num_iter a + 1"
    "nrows (local_record s) = num_iter a + 1"
    "nrows (global_record s) = num_iter a + 1"
    "nrows (shrink_record s) = num_iter a + 1"
    "prior_type s = prior_type a" "num_iter s = num_iter a" "num_burn s = num_burn a"
  using frame_shapes [OF assms] frame_dims(8-10) [OF assms] init_rows [of B a g] init_fields(1-3) [of B a g]
  by (simp_all add: shape_of_def)

section \<open>The returned list\<close>

lemma names_returned_list:
  "map fst (returned_list trim s) =
     (if prior_type s = 2 then base_names @ [''gamma_record'']
      else if prior_type s = 3 then base_names @ [''lambda_record'', ''tau_record'', ''kappa_record'']
      else base_names)"
  by (simp add: returned_list_def base_bundle_def base_names_def)

lemma frame_last_shrink [simp]: "frame (last_shrink B s) = frame s"
  by (simp add: last_shrink_def)



lemma run_gibbs_completed:
  assumes "\<forall>j. \<not> check_abort B j"
  shows "run_gibbs B a g = (Completed, run_iters B 1 (num_iter a) (init_state B a g))"
  unfolding run_gibbs_def using assms by (intro gibbs_loop_completed) auto


lemma estimate_completed:
  assumes "0 < dim a" and "\<forall>j. \<not> check_abort B j"
  shows "estimate_var_sv B a g
           = Inr (completed_bundle B (run_iters B 1 (num_iter a) (init_state B a g)))"
  using assms(1) run_gibbs_completed [OF assms(2)] by (simp add: estimate_var_sv_def)

lemma names_of_run:
  assumes "frame s = frame (init_state B a g)"
  shows "map fst (returned_list trim s) =
     (if prior_type a = 2 then base_names @ [''gamma_record'']
      else if prior_type a = 3 then base_names @ [''lambda_record'', ''tau_record'', ''kappa_record'']
      else base_names)"
  using run_rows(10) [OF assms] by (simp add: names_returned_list)


lemma toy_args_dims [simp]:
  "dim (toy_args n burn tag X Y) = ncols Y" "num_design (toy_args n burn tag X Y) = nrows Y"
  "num_iter (toy_args n burn tag X Y) = n" "num_burn (toy_args n burn tag X Y) = burn"
  "prior_type (toy_args n burn tag X Y) = tag"
  by (simp_all add: toy_args_def dim_def num_design_def)

lemma data_shapes [simp]:
  "nrows data_Y = 2" "ncols data_Y = 2" "nrows data_X = 2" "ncols data_X = 1"
  by (simp_all add: data_X_def data_Y_def)



section \<open>Burn-in trimming\<close>








section \<open>Regime extras and unlisted regime tags\<close>

lemma estimate_returns:
  assumes "0 < dim a"
  shows "\<exists>st s. run_gibbs B a g = (st, s) \<and> frame s = frame (init_state B a g)
           \<and> estimate_var_sv B a g
               = Inr (if st = Cancelled then cancelled_bundle s else completed_bundle B s)"
proof -
  obtain st s where r: "run_gibbs B a g = (st, s)" by (cases "run_gibbs B a g")
  have "frame (snd (run_gibbs B a g)) = frame (init_state B a g)"
    unfolding run_gibbs_def by (rule frame_gibbs_loop)
  with r have f: "frame s = frame (init_state B a g)" by simp
  have "estimate_var_sv B a g = Inr (if st = Cancelled then cancelled_bundle s else completed_bundle B s)"
    using assms r by (cases st) (simp_all add: estimate_var_sv_def)
  with r f show ?thesis by blast
qed

lemma ssvs_list:
  assumes "prior_type s = 2"
  shows "returned_list trim s = base_bundle trim s @ [(''gamma_record'', trim (coef_dummy_record s))]"
  using assms by (simp add: returned_list_def)

text \<open>
  C3, as stated, fails.  A run under the SSVS regime (\<open>prior_type = 2\<close>) returns six
  fields: the five common ones and \<open>gamma_record\<close>, the inclusion indicators.  No field
  carries the inclusion weights.
\<close>

theorem ssvs_run_returns_six_fields:
  "\<exists>b. estimate_var_sv toy (toy_args 3 1 2 data_X data_Y) 0 = Inr b
       \<and> map fst b = [''alpha_record'', ''h_record'', ''a_record'', ''h0_record'', ''sigh_record'',
                       ''gamma_record'']"
proof -
  let ?a = "toy_args 3 1 2 data_X data_Y"
  let ?s = "run_iters toy 1 (num_iter ?a) (init_state toy ?a 0)"
  have c: "\<forall>j. \<not> check_abort toy j" by (simp add: toy_def)
  have d: "0 < dim ?a" by simp
  have f: "frame (last_shrink toy ?s) = frame (init_state toy ?a 0)" by simp
  have "map fst (completed_bundle toy ?s)
          = [''alpha_record'', ''h_record'', ''a_record'', ''h0_record'', ''sigh_record'',
             ''gamma_record'']"
    unfolding completed_bundle_def using names_of_run [OF f] by (simp add: base_names_def)
  with estimate_completed [OF d c, of 0] show ?thesis
    by (intro exI [of _ "completed_bundle toy ?s"] conjI)
qed

text \<open>
  C3, amended.  Under the SSVS regime the returned list holds, beside the coefficient,
  volatility, correlation-loading, initial-state and innovation-variance trajectories,
  exactly one regime extra: the inclusion-indicator trajectory \<open>gamma_record\<close>
  (\<open>coef_dummy_record\<close>, trimmed on completion).  The inclusion-weight trajectory is
  recorded during the run but is not returned.
\<close>

theorem ssvs_returns_indicators_only:
  assumes "prior_type a = 2" and "0 < dim a"
  shows "\<exists>b st s. run_gibbs B a g = (st, s) \<and> estimate_var_sv B a g = Inr b
           \<and> map fst b = base_names @ [''gamma_record'']
           \<and> map_of b ''gamma_record''
               = Some (if st = Cancelled then coef_dummy_record s
                       else bottomRows (coef_dummy_record s) (num_iter a - num_burn a))"
proof -
  obtain st s where r: "run_gibbs B a g = (st, s)" and f: "frame s = frame (init_state B a g)"
    and e: "estimate_var_sv B a g
              = Inr (if st = Cancelled then cancelled_bundle s else completed_bundle B s)"
    using estimate_returns [OF assms(2), of B g] by blast
  let ?b = "if st = Cancelled then cancelled_bundle s else completed_bundle B s"
  have p: "prior_type s = 2" "num_iter s = num_iter a" "num_burn s = num_burn a"
    using run_rows(10-12) [OF f] assms(1) by simp_all
  have l: "last_shrink B s = s" using p(1) by (simp add: last_shrink_def)
  have n: "map fst ?b = base_names @ [''gamma_record'']"
    using p(1) by (simp add: cancelled_bundle_def completed_bundle_def l names_returned_list)
  have m: "map_of ?b ''gamma_record''
             = Some (if st = Cancelled then coef_dummy_record s
                     else bottomRows (coef_dummy_record s) (num_iter a - num_burn a))"
    using p by (simp add: cancelled_bundle_def completed_bundle_def l ssvs_list base_bundle_def)
  from r e n m show ?thesis by blast
qed

theorem ssvs_returns_indicators_only_witness:
  "prior_type (toy_args 3 1 2 data_X data_Y) = 2 \<and> 0 < dim (toy_args 3 1 2 data_X data_Y)
   \<and> (\<exists>b st s. run_gibbs toy (toy_args 3 1 2 data_X data_Y) 0 = (st, s)
           \<and> estimate_var_sv toy (toy_args 3 1 2 data_X data_Y) 0 = Inr b
           \<and> map fst b = base_names @ [''gamma_record'']
           \<and> map_of b ''gamma_record''
               = Some (if st = Cancelled then coef_dummy_record s
                       else bottomRows (coef_dummy_record s)
                              (num_iter (toy_args 3 1 2 data_X data_Y)
                                 - num_burn (toy_args 3 1 2 data_X data_Y))))"
proof -
  have h1: "prior_type (toy_args 3 1 2 data_X data_Y) = 2" by simp
  have h2: "0 < dim (toy_args 3 1 2 data_X data_Y)" by simp
  show ?thesis
    by (intro conjI h1 h2 ssvs_returns_indicators_only [OF h1 h2])
qed

lemma unlisted_tag_skips_draw:
  assumes "prior_type s \<noteq> 1" "prior_type s \<noteq> 2" "prior_type s \<noteq> 3"
  shows "coef_record (draw_coef B i s) = coef_record s"
proof -
  have p: "prior_type (build_precision B i s) = prior_type s"
    using frame_dims(8) [OF frame_build_precision] .
  have k: "coef_record (fold (stack_precision i) ts s0) = coef_record s0" for ts and s0 :: "'a state"
    by (rule fold_keeps) (simp add: stack_precision_def Let_def)
  show ?thesis
    using assms p by (simp add: draw_coef_def Let_def) (simp add: build_precision_def k)
qed

text \<open>
  C4, as stated, fails.  With the regime tag 4 the call raises nothing: it runs to
  completion and returns the five common fields.
\<close>

theorem unlisted_tag_runs:
  "\<exists>b. estimate_var_sv toy (toy_args 3 1 4 data_X data_Y) 0 = Inr b
       \<and> map fst b = [''alpha_record'', ''h_record'', ''a_record'', ''h0_record'', ''sigh_record'']"
proof -
  let ?a = "toy_args 3 1 4 data_X data_Y"
  let ?s = "run_iters toy 1 (num_iter ?a) (init_state toy ?a 0)"
  have c: "\<forall>j. \<not> check_abort toy j" by (simp add: toy_def)
  have d: "0 < dim ?a" by simp
  have f: "frame (last_shrink toy ?s) = frame (init_state toy ?a 0)" by simp
  have "map fst (completed_bundle toy ?s)
          = [''alpha_record'', ''h_record'', ''a_record'', ''h0_record'', ''sigh_record'']"
    unfolding completed_bundle_def using names_of_run [OF f] by (simp add: base_names_def)
  with estimate_completed [OF d c, of 0] show ?thesis
    by (intro exI [of _ "completed_bundle toy ?s"] conjI)
qed

text \<open>
  C4, amended.  For a regime tag other than 1, 2 and 3 no error is raised.  The prior
  configurator keeps what the declarations gave: an uninitialised prior mean, a zero
  prior precision, and for the loadings a zero mean and the identity precision; no
  iteration draws coefficients (the coefficient history is left as it is); and the call
  returns the five common fields.
\<close>

theorem unlisted_tag_keeps_defaults:
  assumes "prior_type a \<noteq> 1" and "prior_type a \<noteq> 2" and "prior_type a \<noteq> 3" and "0 < dim a"
  shows "configure_prior B a
           = (elems (alloc B ''prior_alpha_mean'' (num_coef a) 1), zero_mat (num_coef a) (num_coef a),
              replicate (num_lowerchol a) 0, identity_mat (num_lowerchol a))
         \<and> (\<exists>b. estimate_var_sv B a g = Inr b \<and> map fst b = base_names)
         \<and> (\<forall>i s. prior_type s = prior_type a \<longrightarrow> coef_record (draw_coef B i s) = coef_record s)"
proof -
  have c: "configure_prior B a
           = (elems (alloc B ''prior_alpha_mean'' (num_coef a) 1), zero_mat (num_coef a) (num_coef a),
              replicate (num_lowerchol a) 0, identity_mat (num_lowerchol a))"
    using assms(1-3) by (simp add: configure_prior_def Let_def)
  obtain st s where f: "frame s = frame (init_state B a g)"
    and e: "estimate_var_sv B a g
              = Inr (if st = Cancelled then cancelled_bundle s else completed_bundle B s)"
    using estimate_returns [OF assms(4), of B g] by blast
  have fl: "frame (last_shrink B s) = frame (init_state B a g)" using f by simp
  have "map fst (if st = Cancelled then cancelled_bundle s else completed_bundle B s) = base_names"
    using names_of_run [OF f] names_of_run [OF fl] assms(1-3)
    by (simp add: cancelled_bundle_def completed_bundle_def)
  with e have r: "\<exists>b. estimate_var_sv B a g = Inr b \<and> map fst b = base_names" by blast
  have d: "\<forall>i s. prior_type s = prior_type a \<longrightarrow> coef_record (draw_coef B i s) = coef_record s"
    using assms(1-3) by (simp add: unlisted_tag_skips_draw)
  from c r d show ?thesis by blast
qed

theorem unlisted_tag_keeps_defaults_witness:
  "prior_type (toy_args 3 1 4 data_X data_Y) \<noteq> 1 \<and> prior_type (toy_args 3 1 4 data_X data_Y) \<noteq> 2
   \<and> prior_type (toy_args 3 1 4 data_X data_Y) \<noteq> 3 \<and> 0 < dim (toy_args 3 1 4 data_X data_Y)
   \<and> configure_prior toy (toy_args 3 1 4 data_X data_Y)
       = (elems (alloc toy ''prior_alpha_mean'' (num_coef (toy_args 3 1 4 data_X data_Y)) 1),
          zero_mat (num_coef (toy_args 3 1 4 data_X data_Y)) (num_coef (toy_args 3 1 4 data_X data_Y)),
          replicate (num_lowerchol (toy_args 3 1 4 data_X data_Y)) 0,
          identity_mat (num_lowerchol (toy_args 3 1 4 data_X data_Y)))
   \<and> (\<exists>b. estimate_var_sv toy (toy_args 3 1 4 data_X data_Y) 0 = Inr b \<and> map fst b = base_names)
   \<and> coef_record (draw_coef toy 1 (init_state toy (toy_args 3 1 4 data_X data_Y) 0))
       = coef_record (init_state toy (toy_args 3 1 4 data_X data_Y) 0)"
proof -
  have h1: "prior_type (toy_args 3 1 4 data_X data_Y) \<noteq> 1" by simp
  have h2: "prior_type (toy_args 3 1 4 data_X data_Y) \<noteq> 2" by simp
  have h3: "prior_type (toy_args 3 1 4 data_X data_Y) \<noteq> 3" by simp
  have h4: "0 < dim (toy_args 3 1 4 data_X data_Y)" by simp
  note t = unlisted_tag_keeps_defaults [OF h1 h2 h3 h4, of toy 0]
  have p: "prior_type (init_state toy (toy_args 3 1 4 data_X data_Y) 0)
             = prior_type (toy_args 3 1 4 data_X data_Y)"
    by (rule init_fields(1))
  from t have "coef_record (draw_coef toy 1 (init_state toy (toy_args 3 1 4 data_X data_Y) 0))
       = coef_record (init_state toy (toy_args 3 1 4 data_X data_Y) 0)"
    using p by blast
  with t show ?thesis
    by (intro conjI h1 h2 h3 h4) blast+
qed

section \<open>The order of the updates\<close>

lemma fold_invariant:
  assumes "P s" and "\<And>t s. P s \<Longrightarrow> P (f t s)"
  shows "P (fold f ts s)"
  using assms by (induction ts arbitrary: s) simp_all

lemma build_precision_eq:
  "build_precision B i s =
     s\<lparr>chol_lower := chol_lower (build_precision B i s),
       innov_prec := innov_prec (build_precision B i s),
       prec_stack := prec_stack (build_precision B i s)\<rparr>"
proof -
  let ?s0 = "s\<lparr>chol_lower := build_inv_lower B (dim s) (get_row (contem_coef_record s) (i - 1))\<rparr>"
  let ?P = "\<lambda>u. u = s\<lparr>chol_lower := chol_lower u, innov_prec := innov_prec u, prec_stack := prec_stack u\<rparr>"
  have "?P (fold (stack_precision i) [0..<num_design s] ?s0)"
  proof (rule fold_invariant)
    show "?P ?s0" by simp
  next
    fix t u assume u: "?P u"
    obtain ip ps where e: "stack_precision i t u = u\<lparr>innov_prec := ip, prec_stack := ps\<rparr>"
      by (simp add: stack_precision_def Let_def)
    have "u\<lparr>innov_prec := ip, prec_stack := ps\<rparr>
            = (s\<lparr>chol_lower := chol_lower u, innov_prec := innov_prec u, prec_stack := prec_stack u\<rparr>)
                \<lparr>innov_prec := ip, prec_stack := ps\<rparr>"
      by (rule arg_cong [where f = "\<lambda>r. r\<lparr>innov_prec := ip, prec_stack := ps\<rparr>", OF u])
    then show "?P (stack_precision i t u)"
      unfolding e by simp
  qed
  then show ?thesis unfolding build_precision_def .
qed

lemma draw_volatility_eq:
  "draw_volatility B i s =
     s\<lparr>coef_mat := map_raw (coef_record s) i (dim_design s) (dim s),
       latent_innov := mat_sub (Y0 s) (mat_mul (X0 s) (map_raw (coef_record s) i (dim_design s) (dim s))),
       ortho_latent := log_adjust (mat_mul
          (mat_sub (Y0 s) (mat_mul (X0 s) (map_raw (coef_record s) i (dim_design s) (dim s))))
          (transpose_mat (chol_lower s))),
       lvol_record := lvol_record (draw_volatility B i s),
       rstate := rstate (draw_volatility B i s)\<rparr>"
proof -
  let ?cm = "map_raw (coef_record s) i (dim_design s) (dim s)"
  let ?li = "mat_sub (Y0 s) (mat_mul (X0 s) ?cm)"
  let ?ol = "log_adjust (mat_mul ?li (transpose_mat (chol_lower s)))"
  let ?s0 = "s\<lparr>coef_mat := ?cm, latent_innov := ?li, ortho_latent := ?ol\<rparr>"
  let ?P = "\<lambda>u. u = ?s0\<lparr>lvol_record := lvol_record u, rstate := rstate u\<rparr>"
  have "?P (fold (ht_step B i) [0..<dim s] ?s0)"
  proof (rule fold_invariant)
    show "?P ?s0" by simp
  next
    fix t u assume u: "?P u"
    define l where "l = lvol_record (ht_step B i t u)"
    define g where "g = rstate (ht_step B i t u)"
    have e: "ht_step B i t u = u\<lparr>lvol_record := l, rstate := g\<rparr>"
      unfolding l_def g_def by (simp add: ht_step_def Let_def split: prod.splits)
    have "u\<lparr>lvol_record := l, rstate := g\<rparr>
            = (?s0\<lparr>lvol_record := lvol_record u, rstate := rstate u\<rparr>)\<lparr>lvol_record := l, rstate := g\<rparr>"
      by (rule arg_cong [where f = "\<lambda>r. r\<lparr>lvol_record := l, rstate := g\<rparr>", OF u])
    then show "?P (ht_step B i t u)"
      unfolding e by simp
  qed
  then show ?thesis unfolding draw_volatility_def Let_def by simp
qed







section \<open>The observation vector of the volatility step\<close>

lemma chol_lower_build_precision:
  "chol_lower (build_precision B i s) = build_inv_lower B (dim s) (get_row (contem_coef_record s) (i - 1))"
proof -
  have "chol_lower (fold (stack_precision i) ts s0) = chol_lower s0" for ts and s0 :: "'a state"
    by (rule fold_keeps) (simp add: stack_precision_def Let_def)
  then show ?thesis by (simp add: build_precision_def)
qed

lemma draw_coef_minnesota:
  assumes "prior_type s = 1"
  shows "coef_record (draw_coef B i s)
           = set_row (coef_record s) i
               (fst (varsv_regression B (design_mat s) (response_vec s) (prior_alpha_mean s)
                       (prior_alpha_prec s) (prec_stack (build_precision B i s)) (rstate s)))"
    and "chol_lower (draw_coef B i s) = build_inv_lower B (dim s) (get_row (contem_coef_record s) (i - 1))"
    and "X0 (draw_coef B i s) = X0 s" and "Y0 (draw_coef B i s) = Y0 s"
proof -
  define u where "u = build_precision B i s"
  have e: "u = s\<lparr>chol_lower := chol_lower u, innov_prec := innov_prec u, prec_stack := prec_stack u\<rparr>"
    unfolding u_def by (rule build_precision_eq)
  have f: "coef_record u = coef_record s" "design_mat u = design_mat s" "response_vec u = response_vec s"
    "prior_alpha_mean u = prior_alpha_mean s" "prior_alpha_prec u = prior_alpha_prec s"
    "rstate u = rstate s" "prior_type u = prior_type s" "X0 u = X0 s" "Y0 u = Y0 s"
    by (subst e, simp)+
  have d: "draw_coef B i s = regress_coef B i u"
    using assms by (simp add: draw_coef_def u_def Let_def)
  show "coef_record (draw_coef B i s)
           = set_row (coef_record s) i
               (fst (varsv_regression B (design_mat s) (response_vec s) (prior_alpha_mean s)
                       (prior_alpha_prec s) (prec_stack (build_precision B i s)) (rstate s)))"
    unfolding d by (simp add: regress_coef_def Let_def f case_prod_beta) (simp add: u_def)
  show "chol_lower (draw_coef B i s) = build_inv_lower B (dim s) (get_row (contem_coef_record s) (i - 1))"
    unfolding d by (simp add: regress_coef_def Let_def case_prod_beta)
      (simp add: u_def chol_lower_build_precision)
  show "X0 (draw_coef B i s) = X0 s" "Y0 (draw_coef B i s) = Y0 s"
    unfolding d by (simp_all add: regress_coef_def Let_def f case_prod_beta)
qed

lemma run7_init:
  "prior_type (init_state toy run7 0) = 1"
  "X0 (init_state toy run7 0) = X7" "Y0 (init_state toy run7 0) = Y7"
  "coef_record (init_state toy run7 0) = \<lparr>nrows = 3, ncols = 2, elems = [0, 0, 0, 0, 0, 0]\<rparr>"
  "prior_alpha_mean (init_state toy run7 0) = [1, 2]"
  "prior_alpha_prec (init_state toy run7 0) = \<lparr>nrows = 2, ncols = 2, elems = [0, 0, 0, 0]\<rparr>"
  by (simp_all add: init_state_def configure_prior_def Let_def args.defs state.defs run7_def
      toy_args_def toy_def X7_def Y7_def dim_def dim_design_def num_coef_def num_design_def
      num_alpha_def num_lowerchol_def num_grp_def zero_mat_def mat_of_def set_row_def
      update_where_def coeff_def mat_mul_def transpose_mat_def upt_rec)

lemma run7_drawn:
  "coef_record (draw_coef toy 1 (init_state toy run7 0))
     = \<lparr>nrows = 3, ncols = 2, elems = [0, 1, 0, 0, 2, 0]\<rparr>"
  "chol_lower (draw_coef toy 1 (init_state toy run7 0)) = \<lparr>nrows = 1, ncols = 1, elems = [1]\<rparr>"
  "dim (draw_coef toy 1 (init_state toy run7 0)) = 1"
  "dim_design (draw_coef toy 1 (init_state toy run7 0)) = 2"
proof -
  have v: "fst (varsv_regression toy X v [1, 2] \<lparr>nrows = 2, ncols = 2, elems = [0, 0, 0, 0]\<rparr> Om g) = [1, 2]"
    for X v Om g
    by (simp add: toy_def coeff_def upt_rec)
  show "coef_record (draw_coef toy 1 (init_state toy run7 0))
     = \<lparr>nrows = 3, ncols = 2, elems = [0, 1, 0, 0, 2, 0]\<rparr>"
    by (simp add: draw_coef_minnesota(1) run7_init v)
      (simp add: set_row_def update_where_def upt_rec)
  have d: "dim (init_state toy run7 0) = 1" "dim_design (init_state toy run7 0) = 2"
    by (simp_all add: dim_def dim_design_def run7_init X7_def Y7_def)
  show "chol_lower (draw_coef toy 1 (init_state toy run7 0)) = \<lparr>nrows = 1, ncols = 1, elems = [1]\<rparr>"
    by (simp add: draw_coef_minnesota(2) run7_init d) (simp add: toy_def identity_mat_def mat_of_def)
  show "dim (draw_coef toy 1 (init_state toy run7 0)) = 1"
    "dim_design (draw_coef toy 1 (init_state toy run7 0)) = 2"
    by (simp_all add: dim_def dim_design_def draw_coef_minnesota(3,4) run7_init X7_def Y7_def)
qed

text \<open>
  C7 does not hold of the code.  Line 298 builds the coefficient matrix of the
  volatility step with \<open>Eigen::Map\<close> over \<open>coef_record.row(i).data()\<close>, the address of
  entry \<open>(i, 0)\<close> of a column-major buffer, so it reads \<open>dim_design * dim\<close> consecutive
  doubles from there: column 0 from row \<open>i\<close> downwards and on into the next columns,
  not row \<open>i\<close>.  (Lines 142 and 237 reshape a copy of the row with \<open>unvectorize\<close>.)
  With one equation, two regressors \<open>X0 = (1 1)\<close>, \<open>Y0 = (5)\<close>, two iterations and a
  first coefficient draw of \<open>(1, 2)\<close>, the matrix read is \<open>(1, 0)\<close>, the residual is
  4 instead of \<open>5 - 3 = 2\<close>, and the observation handed to the path update is
  \<open>ln 16.0001\<close> instead of \<open>ln 4.0001\<close>.
\<close>

theorem volatility_step_reads_raw_buffer:
  "(let s1 = draw_coef toy 1 (init_state toy run7 0); s2 = draw_volatility toy 1 s1
    in get_row (coef_record s1) 1 = [1, 2]
       \<and> elems (coef_mat s2) = [1, 0]
       \<and> elems (latent_innov s2) = [4]
       \<and> elems (ortho_latent s2) = [ln (16 + 1 / 10000)]
       \<and> elems (log_adjust (mat_mul
             (mat_sub (Y0 s1) (mat_mul (X0 s1)
                (unvectorize toy (get_row (coef_record s1) 1) (dim_design s1) (dim s1))))
             (transpose_mat (chol_lower s1)))) = [ln (4 + 1 / 10000)]
       \<and> ln (16 + 1 / 10000) \<noteq> (ln (4 + 1 / 10000) :: real))"
proof -
  define s1 where "s1 = draw_coef toy 1 (init_state toy run7 0)"
  define s2 where "s2 = draw_volatility toy 1 s1"
  note r = run7_drawn [folded s1_def]
  have xy: "X0 s1 = X7" "Y0 s1 = Y7"
    by (simp_all add: s1_def draw_coef_minnesota(3,4) run7_init)
  have row: "get_row (coef_record s1) 1 = [1, 2]"
    by (simp add: r get_row_def coeff_def upt_rec)
  have e: "s2 = s1\<lparr>coef_mat := map_raw (coef_record s1) 1 (dim_design s1) (dim s1),
       latent_innov := mat_sub (Y0 s1) (mat_mul (X0 s1) (map_raw (coef_record s1) 1 (dim_design s1) (dim s1))),
       ortho_latent := log_adjust (mat_mul
          (mat_sub (Y0 s1) (mat_mul (X0 s1) (map_raw (coef_record s1) 1 (dim_design s1) (dim s1))))
          (transpose_mat (chol_lower s1))),
       lvol_record := lvol_record s2, rstate := rstate s2\<rparr>"
    unfolding s2_def by (rule draw_volatility_eq)
  have cm: "coef_mat s2 = \<lparr>nrows = 2, ncols = 1, elems = [1, 0]\<rparr>"
    by (subst e) (simp add: r map_raw_def)
  have li: "latent_innov s2 = \<lparr>nrows = 1, ncols = 1, elems = [4]\<rparr>"
    by (subst e) (simp add: r xy map_raw_def X7_def Y7_def mat_sub_def mat_mul_def mat_of_def
        coeff_def upt_rec)
  have ol: "ortho_latent s2 = \<lparr>nrows = 1, ncols = 1, elems = [ln (16 + 1 / 10000)]\<rparr>"
    by (subst e) (simp add: r xy map_raw_def X7_def Y7_def mat_sub_def mat_mul_def mat_of_def
        coeff_def upt_rec log_adjust_def transpose_mat_def)
  have cl: "elems (log_adjust (mat_mul
             (mat_sub (Y0 s1) (mat_mul (X0 s1)
                (unvectorize toy (get_row (coef_record s1) 1) (dim_design s1) (dim s1))))
             (transpose_mat (chol_lower s1)))) = [ln (4 + 1 / 10000)]"
    by (simp add: r xy toy_def X7_def Y7_def mat_sub_def mat_mul_def mat_of_def get_row_def
        coeff_def upt_rec log_adjust_def transpose_mat_def)
  have ne: "ln (16 + 1 / 10000) \<noteq> (ln (4 + 1 / 10000) :: real)"
    by simp
  show ?thesis
    unfolding Let_def s1_def [symmetric] s2_def [symmetric]
    using row cm li ol cl ne by simp
qed

section \<open>What an iteration depends on\<close>









lemma wf_alloc [simp]: "wf_mat (alloc B v r c)"
  by (simp add: wf_mat_def)

lemma wf_set_row [simp]: "wf_mat (set_row M i v) = wf_mat M"
  by (simp add: set_row_def)

lemma wf_zero_mat [simp]: "wf_mat (zero_mat r c)"
  by (simp add: zero_mat_def)


lemma icl_dims [simp]:
  "dim (a\<lparr>init_contem_local := v\<rparr>) = dim a"
  "dim_design (a\<lparr>init_contem_local := v\<rparr>) = dim_design a"
  "num_design (a\<lparr>init_contem_local := v\<rparr>) = num_design a"
  "num_coef (a\<lparr>init_contem_local := v\<rparr>) = num_coef a"
  "num_alpha (a\<lparr>init_contem_local := v\<rparr>) = num_alpha a"
  "num_lowerchol (a\<lparr>init_contem_local := v\<rparr>) = num_lowerchol a"
  "num_grp (a\<lparr>init_contem_local := v\<rparr>) = num_grp a"
  by (simp_all add: dim_def dim_design_def num_design_def num_coef_def num_alpha_def
      num_lowerchol_def num_grp_def)

lemma icl_mean_step [simp]: "ssvs_mean_step (a\<lparr>init_contem_local := v\<rparr>) = ssvs_mean_step a"
  by (intro ext) (simp add: ssvs_mean_step_def)

lemma icl_prior [simp]: "configure_prior B (a\<lparr>init_contem_local := v\<rparr>) = configure_prior B a"
  by (simp add: configure_prior_def Let_def)












end
